theory Spec2Isabelle
  imports Main "HOL-Library.Word" "HOL-Library.Signed_Division"
begin

unbundle bit_operations_syntax

section \<open>C integer types and conversions\<close>

text \<open>
  The driver \<^verbatim>\<open>drivers/misc/inv_mpu/accel/lsm303dlx_a.c\<close> computes with
  \<^verbatim>\<open>unsigned char\<close> (8 bits), \<^verbatim>\<open>int\<close> and \<^verbatim>\<open>unsigned int\<close>
  (32 bits) and \<^verbatim>\<open>long\<close>. The width of \<^verbatim>\<open>long\<close> depends on the kernel's
  target: 32 bits on 32-bit ARM, 64 bits on 64-bit targets. The model keeps it as the
  type parameter \<open>'l\<close> of \<open>'l word\<close>, and the theorems hold for every width of at
  least 32 bits. Signed arithmetic wraps around (the kernel is built with
  \<^verbatim>\<open>-fno-strict-overflow\<close>), and a conversion to a narrower type keeps the low bits.
\<close>

type_synonym u8 = "8 word"

type_synonym u32 = "32 word"

type_synonym inv_error = "32 word"

text \<open>C's \<^verbatim>\<open>/\<close> on two signed longs truncates towards zero.\<close>

definition long_sdiv :: "'l::len word \<Rightarrow> 'l word \<Rightarrow> 'l word" where
  "long_sdiv a b = word_of_int (sint a sdiv sint b)"

text \<open>
  \<^verbatim>\<open>a / b\<close> where one operand has type \<^verbatim>\<open>long\<close> and the other comes from an
  \<^verbatim>\<open>unsigned int\<close>. By the usual arithmetic conversions, when \<^verbatim>\<open>long\<close> is
  no wider than \<^verbatim>\<open>unsigned int\<close> both operands become \<^verbatim>\<open>unsigned long\<close> and the
  division is unsigned; when \<^verbatim>\<open>long\<close> is wider, the \<^verbatim>\<open>unsigned int\<close> becomes a
  \<^verbatim>\<open>long\<close> and the division is signed. Both operands are given here already
  converted to the width of \<^verbatim>\<open>long\<close>.
\<close>

definition div_long_uint :: "'l::len word \<Rightarrow> 'l word \<Rightarrow> 'l word" where
  "div_long_uint a b = (if LENGTH('l) \<le> 32 then a div b else long_sdiv a b)"

definition INV_SUCCESS :: inv_error where
  "INV_SUCCESS = 0"

section \<open>Register map\<close>

definition LSM303DLx_CTRL_REG1 :: u8 where "LSM303DLx_CTRL_REG1 = 0x20"

definition LSM303DLx_CTRL_REG2 :: u8 where "LSM303DLx_CTRL_REG2 = 0x21"

definition LSM303DLx_CTRL_REG3 :: u8 where "LSM303DLx_CTRL_REG3 = 0x22"

definition LSM303DLx_CTRL_REG4 :: u8 where "LSM303DLx_CTRL_REG4 = 0x23"

definition LSM303DLx_HP_FILTER_RESET :: u8 where "LSM303DLx_HP_FILTER_RESET = 0x25"

definition LSM303DLx_STATUS_REG :: u8 where "LSM303DLx_STATUS_REG = 0x27"

definition LSM303DLx_INT1_CFG :: u8 where "LSM303DLx_INT1_CFG = 0x30"

definition LSM303DLx_INT1_THS :: u8 where "LSM303DLx_INT1_THS = 0x32"

definition LSM303DLx_INT1_DURATION :: u8 where "LSM303DLx_INT1_DURATION = 0x33"

definition LSM303DLx_PWR_MODE_NORMAL :: u8 where "LSM303DLx_PWR_MODE_NORMAL = 0x20"

definition LSM303DLx_MAX_DUR :: "'l::len word" where "LSM303DLx_MAX_DUR = 0x7F"

text \<open>
  Modelled from the spec: the interrupt types of \<^verbatim>\<open>linux/mpu.h\<close>, which is not under
  \<^verbatim>\<open>src/\<close>. The spec lists the enumeration as NONE, MOTION, DATA_READY; a C
  enumeration numbers its members from 0 in that order.
\<close>

definition MPU_SLAVE_IRQ_TYPE_NONE :: nat where "MPU_SLAVE_IRQ_TYPE_NONE = 0"

definition MPU_SLAVE_IRQ_TYPE_MOTION :: nat where "MPU_SLAVE_IRQ_TYPE_MOTION = 1"

definition MPU_SLAVE_IRQ_TYPE_DATA_READY :: nat where "MPU_SLAVE_IRQ_TYPE_DATA_READY = 2"

section \<open>The serial bus\<close>

text \<open>
  Modelled from the spec: the bus transport of \<^verbatim>\<open>mlsl.h\<close>, which is not under
  \<^verbatim>\<open>src/\<close>: \<^verbatim>\<open>write_register(address, register, byte) -> status\<close> and
  \<^verbatim>\<open>read_registers(address, register, count) -> (bytes, status)\<close>. The handle
  records every operation issued, in order; the status (and the bytes read) that the
  transport answers may depend on the operation and on everything issued before it, so
  every pattern of per-step failures is some \<open>transport\<close>.
\<close>

datatype bus_op =
    Single_Write u8 u8 u8
  | Serial_Read u8 u8 nat

record mlsl_handle =
  transport :: "bus_op list \<Rightarrow> bus_op \<Rightarrow> inv_error \<times> u8 list"
  issued :: "bus_op list"

definition inv_serial_single_write ::
  "mlsl_handle \<Rightarrow> u8 \<Rightarrow> u8 \<Rightarrow> u8 \<Rightarrow> inv_error \<times> mlsl_handle" where
  "inv_serial_single_write h slave_addr register_addr data =
     (let bop = Single_Write slave_addr register_addr data
      in (fst (transport h (issued h) bop), h\<lparr>issued := issued h @ [bop]\<rparr>))"

text \<open>
  A read stores the bytes the transport delivers (at most \<open>len\<close>) at the start of the
  caller's buffer and leaves the rest of the buffer as it was. The buffer is a map from
  offsets to bytes.
\<close>

definition inv_serial_read ::
  "mlsl_handle \<Rightarrow> u8 \<Rightarrow> u8 \<Rightarrow> nat \<Rightarrow> (nat \<Rightarrow> u8) \<Rightarrow> inv_error \<times> (nat \<Rightarrow> u8) \<times> mlsl_handle" where
  "inv_serial_read h slave_addr register_addr len data =
     (let bop = Serial_Read slave_addr register_addr len;
          answer = transport h (issued h) bop;
          bytes = take len (snd answer)
      in (fst answer,
          (\<lambda>i. if i < length bytes then bytes ! i else data i),
          h\<lparr>issued := issued h @ [bop]\<rparr>))"

section \<open>Configuration state\<close>

record lsm303dlx_a_config =
  odr :: u32
  fsr :: u32
  ths :: u32
  dur :: u32
  reg_ths :: u8
  reg_dur :: u8
  ctrl_reg1 :: u8
  irq_type :: u8
  mot_int1_cfg :: u8

record lsm303dlx_a_private_data =
  suspend :: lsm303dlx_a_config
  resume :: lsm303dlx_a_config

record ext_slave_platform_data =
  address :: u8
  private_data :: lsm303dlx_a_private_data

record ext_slave_descr =
  read_reg :: u8
  read_len :: nat

section \<open>The setters\<close>

text \<open>
  Each setter takes the bus handle, the platform data, the configuration it updates,
  the \<^verbatim>\<open>apply\<close> flag (as a truth value: C tests it for non-zero) and the requested
  value, and returns its status, the updated configuration and the bus handle.

  \<^verbatim>\<open>lsm303dlx_a_set_ths\<close> divides by \<^verbatim>\<open>config->fsr\<close>; a division by zero is
  undefined in C and is the result \<open>None\<close> here.
\<close>

definition lsm303dlx_a_set_ths ::
  "mlsl_handle \<Rightarrow> ext_slave_platform_data \<Rightarrow> lsm303dlx_a_config \<Rightarrow> bool \<Rightarrow> 'l::len word
     \<Rightarrow> (inv_error \<times> lsm303dlx_a_config \<times> mlsl_handle) option" where
  "lsm303dlx_a_set_ths mlsl pdata config apply ths0 =
     (let ths1 = (if fsr config \<le> (ucast ths0 :: u32) then ucast (fsr config) - 1 else ths0);
          ths2 = (if ths1 <s 0 then 0 else ths1)
      in if fsr config = 0 then None
         else
           let config = config\<lparr>ths := ucast ths2\<rparr>;
               config = config\<lparr>reg_ths := ucast (div_long_uint (ths2 * 128) (ucast (fsr config)))\<rparr>
           in if apply
              then (let (result, mlsl) = inv_serial_single_write mlsl (address pdata)
                                           LSM303DLx_INT1_THS (reg_ths config)
                    in Some (result, config, mlsl))
              else Some (INV_SUCCESS, config, mlsl))"

definition lsm303dlx_a_set_dur ::
  "mlsl_handle \<Rightarrow> ext_slave_platform_data \<Rightarrow> lsm303dlx_a_config \<Rightarrow> bool \<Rightarrow> 'l::len word
     \<Rightarrow> inv_error \<times> lsm303dlx_a_config \<times> mlsl_handle" where
  "lsm303dlx_a_set_dur mlsl pdata config apply dur0 =
     (let reg_dur0 = div_long_uint (dur0 * ucast (odr config)) 1000000;
          config = config\<lparr>dur := ucast dur0\<rparr>;
          reg_dur1 = (if LSM303DLx_MAX_DUR <s reg_dur0 then LSM303DLx_MAX_DUR else reg_dur0);
          config = config\<lparr>reg_dur := ucast reg_dur1\<rparr>
      in if apply
         then (let (result, mlsl) = inv_serial_single_write mlsl (address pdata)
                                      LSM303DLx_INT1_DURATION (ucast reg_dur1)
               in (result, config, mlsl))
         else (INV_SUCCESS, config, mlsl))"

definition lsm303dlx_a_set_irq ::
  "mlsl_handle \<Rightarrow> ext_slave_platform_data \<Rightarrow> lsm303dlx_a_config \<Rightarrow> bool \<Rightarrow> 'l::len word
     \<Rightarrow> inv_error \<times> lsm303dlx_a_config \<times> mlsl_handle" where
  "lsm303dlx_a_set_irq mlsl pdata config apply irq_type0 =
     (let config = config\<lparr>irq_type := ucast irq_type0\<rparr>;
          (reg1, reg2) =
            (if irq_type0 = of_nat MPU_SLAVE_IRQ_TYPE_DATA_READY then (0x02, 0x00)
             else if irq_type0 = of_nat MPU_SLAVE_IRQ_TYPE_MOTION then (0x00, mot_int1_cfg config)
             else (0x00, 0x00))
      in if apply
         then (let (result, mlsl) = inv_serial_single_write mlsl (address pdata)
                                      LSM303DLx_CTRL_REG3 reg1;
                   (result, mlsl) = inv_serial_single_write mlsl (address pdata)
                                      LSM303DLx_INT1_CFG reg2
               in (result, config, mlsl))
         else (INV_SUCCESS, config, mlsl))"

text \<open>
  \<^verbatim>\<open>lsm303dlx_a_set_odr\<close> selects the tier, keeps the low three bits of
  \<^verbatim>\<open>ctrl_reg1\<close>, calls \<^verbatim>\<open>lsm303dlx_a_set_dur\<close> with the stored duration (its
  status is dropped) and then writes \<^verbatim>\<open>CTRL_REG1\<close> when applying. \<open>odr_tier\<close> is
  the chain of tests at the head of the function: the rate it assigns to
  \<^verbatim>\<open>config->odr\<close> and the value it gives \<^verbatim>\<open>bits\<close>.
\<close>

definition odr_tier :: "'l::len word \<Rightarrow> u32 \<times> u8" where
  "odr_tier odr0 =
     (if 400000 <s odr0 then (1000000, LSM303DLx_PWR_MODE_NORMAL OR 0x18)
      else if 100000 <s odr0 then (400000, LSM303DLx_PWR_MODE_NORMAL OR 0x10)
      else if 50000 <s odr0 then (100000, LSM303DLx_PWR_MODE_NORMAL OR 0x08)
      else if 10000 <s odr0 then (50000, LSM303DLx_PWR_MODE_NORMAL OR 0x00)
      else if 5000 <s odr0 then (10000, 0xC0)
      else if 2000 <s odr0 then (5000, 0xA0)
      else if 1000 <s odr0 then (2000, 0x80)
      else if 500 <s odr0 then (1000, 0x60)
      else if 0 <s odr0 then (500, 0x40)
      else (0, 0))"

definition lsm303dlx_a_set_odr ::
  "mlsl_handle \<Rightarrow> ext_slave_platform_data \<Rightarrow> lsm303dlx_a_config \<Rightarrow> bool \<Rightarrow> 'l::len word
     \<Rightarrow> inv_error \<times> lsm303dlx_a_config \<times> mlsl_handle" where
  "lsm303dlx_a_set_odr mlsl pdata config apply odr0 =
     (let (new_odr, bits) = odr_tier odr0;
          config = config\<lparr>odr := new_odr\<rparr>;
          config = config\<lparr>ctrl_reg1 := bits OR (ctrl_reg1 config AND 0x7)\<rparr>;
          (_, config, mlsl) =
            lsm303dlx_a_set_dur mlsl pdata config apply (ucast (dur config) :: 'l word)
      in if apply
         then (let (result, mlsl) = inv_serial_single_write mlsl (address pdata)
                                      LSM303DLx_CTRL_REG1 (ctrl_reg1 config)
               in (result, config, mlsl))
         else (INV_SUCCESS, config, mlsl))"

text \<open>
  \<^verbatim>\<open>lsm303dlx_a_set_fsr\<close> selects the range and its register byte, calls
  \<^verbatim>\<open>lsm303dlx_a_set_ths\<close> with the stored threshold (its status is dropped) and then
  writes \<^verbatim>\<open>CTRL_REG4\<close> when applying. \<open>fsr_tier\<close> is the chain of tests at the
  head of the function: the range it assigns to \<^verbatim>\<open>config->fsr\<close> and the value of
  \<^verbatim>\<open>reg1\<close>, which starts as \<open>0x40\<close>.
\<close>

definition fsr_tier :: "'l::len word \<Rightarrow> u32 \<times> u8" where
  "fsr_tier fsr0 =
     (if fsr0 \<le>s 2048 then (2048, 0x40)
      else if fsr0 \<le>s 4096 then (4096, 0x40 OR 0x30)
      else (8192, 0x40 OR 0x10))"

definition lsm303dlx_a_set_fsr ::
  "mlsl_handle \<Rightarrow> ext_slave_platform_data \<Rightarrow> lsm303dlx_a_config \<Rightarrow> bool \<Rightarrow> 'l::len word
     \<Rightarrow> (inv_error \<times> lsm303dlx_a_config \<times> mlsl_handle) option" where
  "lsm303dlx_a_set_fsr mlsl pdata config apply fsr0 =
     (let (new_fsr, reg1) = fsr_tier fsr0;
          config = config\<lparr>fsr := new_fsr\<rparr>
      in case lsm303dlx_a_set_ths mlsl pdata config apply (ucast (ths config) :: 'l word) of
           None \<Rightarrow> None
         | Some (_, config, mlsl) \<Rightarrow>
             if apply
             then (let (result, mlsl) = inv_serial_single_write mlsl (address pdata)
                                          LSM303DLx_CTRL_REG4 reg1
                   in Some (result, config, mlsl))
             else Some (INV_SUCCESS, config, mlsl))"

section \<open>Suspend, resume and read\<close>

text \<open>
  \<^verbatim>\<open>lsm303dlx_a_suspend\<close> overwrites \<^verbatim>\<open>result\<close> with the status of each bus
  operation and returns the last one. The final read goes into the local \<^verbatim>\<open>reg1\<close>.
\<close>

definition lsm303dlx_a_suspend ::
  "mlsl_handle \<Rightarrow> ext_slave_descr \<Rightarrow> ext_slave_platform_data \<Rightarrow> inv_error \<times> mlsl_handle" where
  "lsm303dlx_a_suspend mlsl slave pdata =
     (let cfg = suspend (private_data pdata);
          (result, mlsl) = inv_serial_single_write mlsl (address pdata)
                             LSM303DLx_CTRL_REG1 (ctrl_reg1 cfg);
          (result, mlsl) = inv_serial_single_write mlsl (address pdata)
                             LSM303DLx_CTRL_REG2 0x0f;
          reg1 = 0x40;
          reg1 = (if fsr cfg = 8192 then reg1 OR 0x30
                  else if fsr cfg = 4096 then reg1 OR 0x10
                  else reg1);
          (result, mlsl) = inv_serial_single_write mlsl (address pdata)
                             LSM303DLx_CTRL_REG4 reg1;
          (result, mlsl) = inv_serial_single_write mlsl (address pdata)
                             LSM303DLx_INT1_THS (reg_ths cfg);
          (result, mlsl) = inv_serial_single_write mlsl (address pdata)
                             LSM303DLx_INT1_DURATION (reg_dur cfg);
          (reg1, reg2) =
            (if unat (irq_type cfg) = MPU_SLAVE_IRQ_TYPE_DATA_READY then (0x02, 0x00)
             else if unat (irq_type cfg) = MPU_SLAVE_IRQ_TYPE_MOTION
               then (0x00, mot_int1_cfg cfg)
             else (0x00, 0x00));
          (result, mlsl) = inv_serial_single_write mlsl (address pdata)
                             LSM303DLx_CTRL_REG3 reg1;
          (result, mlsl) = inv_serial_single_write mlsl (address pdata)
                             LSM303DLx_INT1_CFG reg2;
          (result, buf, mlsl) = inv_serial_read mlsl (address pdata)
                             LSM303DLx_HP_FILTER_RESET 1 (\<lambda>_. reg1)
      in (result, mlsl))"

text \<open>
  \<^verbatim>\<open>lsm303dlx_a_resume\<close> tests \<^verbatim>\<open>result\<close> after each bus operation and returns
  it at once when it is not zero. The \<^verbatim>\<open>msleep(6)\<close> after the first write changes
  no state. The order of the writes is the source's: \<^verbatim>\<open>CTRL_REG1\<close>,
  \<^verbatim>\<open>CTRL_REG4\<close>, \<^verbatim>\<open>CTRL_REG2\<close>, \<^verbatim>\<open>CTRL_REG3\<close>, \<^verbatim>\<open>INT1_THS\<close>,
  \<^verbatim>\<open>INT1_DURATION\<close>, \<^verbatim>\<open>INT1_CFG\<close>, then the read of
  \<^verbatim>\<open>HP_FILTER_RESET\<close>.
\<close>

definition lsm303dlx_a_resume ::
  "mlsl_handle \<Rightarrow> ext_slave_descr \<Rightarrow> ext_slave_platform_data \<Rightarrow> inv_error \<times> mlsl_handle" where
  "lsm303dlx_a_resume mlsl slave pdata =
     (let cfg = resume (private_data pdata);
          (result, mlsl) = inv_serial_single_write mlsl (address pdata)
                             LSM303DLx_CTRL_REG1 (ctrl_reg1 cfg)
      in if result \<noteq> 0 then (result, mlsl) else
      let reg1 = 0x40;
          reg1 = (if fsr cfg = 8192 then reg1 OR 0x30
                  else if fsr cfg = 4096 then reg1 OR 0x10
                  else reg1);
          (result, mlsl) = inv_serial_single_write mlsl (address pdata)
                             LSM303DLx_CTRL_REG4 reg1
      in if result \<noteq> 0 then (result, mlsl) else
      let (result, mlsl) = inv_serial_single_write mlsl (address pdata)
                             LSM303DLx_CTRL_REG2 0x0F
      in if result \<noteq> 0 then (result, mlsl) else
      let (reg1, reg2) =
            (if unat (irq_type cfg) = MPU_SLAVE_IRQ_TYPE_DATA_READY then (0x02, 0x00)
             else if unat (irq_type cfg) = MPU_SLAVE_IRQ_TYPE_MOTION
               then (0x00, mot_int1_cfg cfg)
             else (0x00, 0x00));
          (result, mlsl) = inv_serial_single_write mlsl (address pdata)
                             LSM303DLx_CTRL_REG3 reg1
      in if result \<noteq> 0 then (result, mlsl) else
      let (result, mlsl) = inv_serial_single_write mlsl (address pdata)
                             LSM303DLx_INT1_THS (reg_ths cfg)
      in if result \<noteq> 0 then (result, mlsl) else
      let (result, mlsl) = inv_serial_single_write mlsl (address pdata)
                             LSM303DLx_INT1_DURATION (reg_dur cfg)
      in if result \<noteq> 0 then (result, mlsl) else
      let (result, mlsl) = inv_serial_single_write mlsl (address pdata)
                             LSM303DLx_INT1_CFG reg2
      in if result \<noteq> 0 then (result, mlsl) else
      let (result, buf, mlsl) = inv_serial_read mlsl (address pdata)
                             LSM303DLx_HP_FILTER_RESET 1 (\<lambda>_. reg1)
      in (result, mlsl))"

text \<open>
  \<^verbatim>\<open>lsm303dlx_a_read\<close> reads one byte from the status register into the caller's
  buffer and tests the low four bits of \<^verbatim>\<open>data[0]\<close>; the status of that first read
  is not looked at. The error code \<^verbatim>\<open>INV_ERROR_ACCEL_DATA_NOT_READY\<close> is declared
  in a header that is not under \<^verbatim>\<open>src/\<close> and is a parameter here.
\<close>

definition lsm303dlx_a_read ::
  "inv_error \<Rightarrow> mlsl_handle \<Rightarrow> ext_slave_descr \<Rightarrow> ext_slave_platform_data \<Rightarrow> (nat \<Rightarrow> u8)
     \<Rightarrow> inv_error \<times> (nat \<Rightarrow> u8) \<times> mlsl_handle" where
  "lsm303dlx_a_read INV_ERROR_ACCEL_DATA_NOT_READY mlsl slave pdata data =
     (let (result, data, mlsl) = inv_serial_read mlsl (address pdata)
                                   LSM303DLx_STATUS_REG 1 data
      in if data 0 AND 0x0F \<noteq> 0
         then inv_serial_read mlsl (address pdata) (read_reg slave) (read_len slave) data
         else (INV_ERROR_ACCEL_DATA_NOT_READY, data, mlsl))"

definition lsm303dlx_a_descr :: ext_slave_descr where
  "lsm303dlx_a_descr = \<lparr>read_reg = 0x28 OR 0x80, read_len = 6\<rparr>"

section \<open>Initialisation\<close>

text \<open>
  \<^verbatim>\<open>lsm303dlx_a_init\<close> allocates the zero-filled private data (\<^verbatim>\<open>kzalloc\<close>), seeds
  the two control bytes and the two motion bytes, and calls the setters without
  applying. Whether the allocation succeeds, the error code
  \<^verbatim>\<open>INV_ERROR_MEMORY_EXAUSTED\<close> and the value of the macro
  \<^verbatim>\<open>range_fixedpoint_to_long_mg(slave->range)\<close> come from outside \<^verbatim>\<open>src/\<close> and
  are parameters.
\<close>

definition kzalloc_config :: lsm303dlx_a_config where
  "kzalloc_config = \<lparr>odr = 0, fsr = 0, ths = 0, dur = 0, reg_ths = 0, reg_dur = 0,
     ctrl_reg1 = 0, irq_type = 0, mot_int1_cfg = 0\<rparr>"

definition lsm303dlx_a_init ::
  "inv_error \<Rightarrow> bool \<Rightarrow> 'l::len word \<Rightarrow> mlsl_handle \<Rightarrow> ext_slave_descr \<Rightarrow> ext_slave_platform_data
     \<Rightarrow> (inv_error \<times> ext_slave_platform_data \<times> mlsl_handle) option" where
  "lsm303dlx_a_init INV_ERROR_MEMORY_EXAUSTED kzalloc_ok range_mg mlsl slave pdata =
     (if \<not> kzalloc_ok then Some (INV_ERROR_MEMORY_EXAUSTED, pdata, mlsl) else
      let r = kzalloc_config\<lparr>ctrl_reg1 := 0x37\<rparr>;
          s = kzalloc_config\<lparr>ctrl_reg1 := 0x47\<rparr>;
          r = r\<lparr>mot_int1_cfg := 0x95\<rparr>;
          s = s\<lparr>mot_int1_cfg := 0x2a\<rparr>;
          (_, s, mlsl) = lsm303dlx_a_set_odr mlsl pdata s False (0 :: 'l word);
          (_, r, mlsl) = lsm303dlx_a_set_odr mlsl pdata r False (200000 :: 'l word)
      in case lsm303dlx_a_set_fsr mlsl pdata s False range_mg of None \<Rightarrow> None
         | Some (_, s, mlsl) \<Rightarrow>
     (case lsm303dlx_a_set_fsr mlsl pdata r False range_mg of None \<Rightarrow> None
         | Some (_, r, mlsl) \<Rightarrow>
     (case lsm303dlx_a_set_ths mlsl pdata s False (80 :: 'l word) of None \<Rightarrow> None
         | Some (_, s, mlsl) \<Rightarrow>
     (case lsm303dlx_a_set_ths mlsl pdata r False (40 :: 'l word) of None \<Rightarrow> None
         | Some (_, r, mlsl) \<Rightarrow>
      let (_, s, mlsl) = lsm303dlx_a_set_dur mlsl pdata s False (1000 :: 'l word);
          (_, r, mlsl) = lsm303dlx_a_set_dur mlsl pdata r False (2540 :: 'l word);
          (_, s, mlsl) = lsm303dlx_a_set_irq mlsl pdata s False
                           (of_nat MPU_SLAVE_IRQ_TYPE_NONE :: 'l word);
          (_, r, mlsl) = lsm303dlx_a_set_irq mlsl pdata r False
                           (of_nat MPU_SLAVE_IRQ_TYPE_NONE :: 'l word)
      in Some (INV_SUCCESS,
               pdata\<lparr>private_data := \<lparr>suspend = s, resume = r\<rparr>\<rparr>,
               mlsl)))))"

section \<open>Properties to state\<close>

text \<open>The configuration a setter returns.\<close>

definition new_config :: "inv_error \<times> lsm303dlx_a_config \<times> mlsl_handle \<Rightarrow> lsm303dlx_a_config" where
  "new_config res = fst (snd res)"

text \<open>
  The invariant of a configuration: the range is one of the three tiers, the threshold
  is below the range, and the two register encodings are the ones derived from the
  physical fields.
\<close>

definition consistent :: "lsm303dlx_a_config \<Rightarrow> bool" where
  "consistent c \<longleftrightarrow>
     (fsr c = 2048 \<or> fsr c = 4096 \<or> fsr c = 8192) \<and>
     uint (ths c) < uint (fsr c) \<and>
     uint (reg_ths c) = uint (ths c) * 128 div uint (fsr c) \<and>
     uint (reg_dur c) = min (uint (dur c) * uint (odr c) div 1000000) 0x7F"

text \<open>The rates \<^verbatim>\<open>lsm303dlx_a_set_odr\<close> can store, in mHz.\<close>

definition odr_rates :: "u32 list" where
  "odr_rates = [0, 500, 1000, 2000, 5000, 10000, 50000, 100000, 400000, 1000000]"

text \<open>
  The byte for \<^verbatim>\<open>CTRL_REG4\<close> that \<^verbatim>\<open>lsm303dlx_a_suspend\<close> and
  \<^verbatim>\<open>lsm303dlx_a_resume\<close> compute from the stored range, and the two interrupt bytes
  they compute from the stored interrupt type.
\<close>

definition full_scale_byte :: "lsm303dlx_a_config \<Rightarrow> u8" where
  "full_scale_byte cfg =
     (if fsr cfg = 8192 then 0x40 OR 0x30 else if fsr cfg = 4096 then 0x40 OR 0x10 else 0x40)"

definition irq_bytes :: "lsm303dlx_a_config \<Rightarrow> u8 \<times> u8" where
  "irq_bytes cfg =
     (if unat (irq_type cfg) = MPU_SLAVE_IRQ_TYPE_DATA_READY then (0x02, 0x00)
      else if unat (irq_type cfg) = MPU_SLAVE_IRQ_TYPE_MOTION then (0x00, mot_int1_cfg cfg)
      else (0x00, 0x00))"

text \<open>The bus operations of a suspend and of a resume, in the order of the source.\<close>

definition suspend_ops :: "ext_slave_platform_data \<Rightarrow> bus_op list" where
  "suspend_ops pdata =
     (let cfg = suspend (private_data pdata); a = address pdata in
      [Single_Write a LSM303DLx_CTRL_REG1 (ctrl_reg1 cfg),
       Single_Write a LSM303DLx_CTRL_REG2 0x0f,
       Single_Write a LSM303DLx_CTRL_REG4 (full_scale_byte cfg),
       Single_Write a LSM303DLx_INT1_THS (reg_ths cfg),
       Single_Write a LSM303DLx_INT1_DURATION (reg_dur cfg),
       Single_Write a LSM303DLx_CTRL_REG3 (fst (irq_bytes cfg)),
       Single_Write a LSM303DLx_INT1_CFG (snd (irq_bytes cfg)),
       Serial_Read a LSM303DLx_HP_FILTER_RESET 1])"

definition resume_ops :: "ext_slave_platform_data \<Rightarrow> bus_op list" where
  "resume_ops pdata =
     (let cfg = resume (private_data pdata); a = address pdata in
      [Single_Write a LSM303DLx_CTRL_REG1 (ctrl_reg1 cfg),
       Single_Write a LSM303DLx_CTRL_REG4 (full_scale_byte cfg),
       Single_Write a LSM303DLx_CTRL_REG2 0x0F,
       Single_Write a LSM303DLx_CTRL_REG3 (fst (irq_bytes cfg)),
       Single_Write a LSM303DLx_INT1_THS (reg_ths cfg),
       Single_Write a LSM303DLx_INT1_DURATION (reg_dur cfg),
       Single_Write a LSM303DLx_INT1_CFG (snd (irq_bytes cfg)),
       Serial_Read a LSM303DLx_HP_FILTER_RESET 1])"

text \<open>
  The status the transport answers to the \<open>i\<close>-th operation of a sequence, when the
  operations before it have been issued.
\<close>

definition step_status :: "mlsl_handle \<Rightarrow> bus_op list \<Rightarrow> nat \<Rightarrow> inv_error" where
  "step_status h ops i = fst (transport h (issued h @ take i ops) (ops ! i))"

text \<open>
  The threshold \<^verbatim>\<open>lsm303dlx_a_set_ths\<close> arrives at, as a \<^verbatim>\<open>long\<close>, after its two
  tests: the unsigned comparison with the range, then the test for a negative value.
\<close>

definition clamped_ths :: "u32 \<Rightarrow> 'l::len word \<Rightarrow> 'l word" where
  "clamped_ths f t =
     (let t1 = (if f \<le> (ucast t :: u32) then ucast f - 1 else t)
      in if t1 <s 0 then 0 else t1)"

text \<open>
  A bus on which every operation succeeds and no byte is delivered, and platform data
  with zero-filled configurations, for the concrete evaluations below.
\<close>

definition quiet_bus :: mlsl_handle where
  "quiet_bus = \<lparr>transport = (\<lambda>_ _. (0, [])), issued = []\<rparr>"

definition blank_pdata :: ext_slave_platform_data where
  "blank_pdata = \<lparr>address = 0x19,
     private_data = \<lparr>suspend = kzalloc_config, resume = kzalloc_config\<rparr>\<rparr>"

text \<open>
  The two configurations after \<^verbatim>\<open>lsm303dlx_a_init\<close> with a nominal range of 2048 mg
  (\<open>init_defaults\<close> below).
\<close>

definition suspend_defaults :: lsm303dlx_a_config where
  "suspend_defaults = \<lparr>odr = 0, fsr = 2048, ths = 80, dur = 1000, reg_ths = 5,
     reg_dur = 0, ctrl_reg1 = 0x07, irq_type = 0, mot_int1_cfg = 0x2a\<rparr>"

definition resume_defaults :: lsm303dlx_a_config where
  "resume_defaults = \<lparr>odr = 400000, fsr = 2048, ths = 40, dur = 2540, reg_ths = 2,
     reg_dur = 0x7F, ctrl_reg1 = 0x37, irq_type = 0, mot_int1_cfg = 0x95\<rparr>"

definition default_pdata :: ext_slave_platform_data where
  "default_pdata = blank_pdata\<lparr>private_data :=
     \<lparr>suspend = suspend_defaults, resume = resume_defaults\<rparr>\<rparr>"

text \<open>
  The byte at \<^verbatim>\<open>data[0]\<close> after the read of the status register, which
  \<^verbatim>\<open>lsm303dlx_a_read\<close> tests.
\<close>

definition status_byte :: "mlsl_handle \<Rightarrow> ext_slave_platform_data \<Rightarrow> (nat \<Rightarrow> u8) \<Rightarrow> u8" where
  "status_byte h pdata data =
     fst (snd (inv_serial_read h (address pdata) LSM303DLx_STATUS_REG 1 data)) 0"

text \<open>
  A bus that answers every read with the one byte \<open>b\<close>, and a bus whose \<open>n\<close>-th
  operation (counted from 0) fails with status \<open>e\<close> while all others succeed.
\<close>

definition byte_bus :: "u8 \<Rightarrow> mlsl_handle" where
  "byte_bus b = \<lparr>transport = (\<lambda>_ _. (0, [b])), issued = []\<rparr>"

definition failing_bus :: "nat \<Rightarrow> inv_error \<Rightarrow> mlsl_handle" where
  "failing_bus n e = \<lparr>transport = (\<lambda>before _. (if length before = n then e else 0, [])), issued = []\<rparr>"

section \<open>Facts about the integer conversions\<close>

text \<open>
  A \<^verbatim>\<open>long\<close> of at least 32 bits holds every value below \<open>2 ^ 31\<close> as a
  non-negative signed value, and every \<^verbatim>\<open>unsigned int\<close> keeps its bits when it is
  converted to \<^verbatim>\<open>long\<close>.
\<close>

lemma long_pow_bound: "32 \<le> LENGTH('l::len) \<Longrightarrow> (2::int) ^ 31 \<le> 2 ^ (LENGTH('l) - Suc 0)"
  by (rule power_increasing) auto

lemma sint_eq_uint:
  assumes "uint (x :: 'l::len word) < 2 ^ (LENGTH('l) - Suc 0)"
  shows "sint x = uint x"
proof -
  have "- (2 ^ (LENGTH('l) - Suc 0)) \<le> uint x"
    by (rule order_trans [of _ 0]) simp_all
  with assms show ?thesis
    by (simp add: sint_uint signed_take_bit_int_eq_self)
qed

lemma sint_uint_cases:
  "sint (x :: 'l::len word) = uint x - 2 ^ LENGTH('l) * of_bool (bit (uint x) (LENGTH('l) - Suc 0))"
proof -
  have "take_bit (Suc (LENGTH('l) - Suc 0)) (uint x) = uint x"
    by (simp add: take_bit_int_eq_self)
  then show ?thesis
    using signed_take_bit_eq_take_bit_minus [of "LENGTH('l) - Suc 0" "uint x"]
    by (simp add: sint_uint)
qed

lemma uint_of_sint:
  assumes "0 \<le> sint (x :: 'l::len word)"
  shows "uint x = sint x"
proof (cases "bit (uint x) (LENGTH('l) - Suc 0)")
  case True
  have "uint x < 2 ^ LENGTH('l)" by simp
  with True assms show ?thesis by (simp add: sint_uint_cases)
next
  case False
  then show ?thesis by (simp add: sint_uint_cases)
qed

lemma ucast_long_u32_id:
  "32 \<le> LENGTH('l::len) \<Longrightarrow> (ucast (ucast (w :: u32) :: 'l word) :: u32) = w"
  by (rule ucast_up_ucast_id) (simp add: is_up)

lemma unat_ucast_u32_long: "32 \<le> LENGTH('l::len) \<Longrightarrow> unat (ucast (w :: u32) :: 'l word) = unat w"
proof -
  assume L: "32 \<le> LENGTH('l)"
  have "unat w < 2 ^ 32" using unsigned_less [of w, where 'a = nat] by simp
  also have "(2::nat) ^ 32 \<le> 2 ^ LENGTH('l)" using L by (intro power_increasing) auto
  finally show ?thesis by (simp add: unsigned_ucast_eq take_bit_nat_eq_self)
qed

lemma uint_ucast_u32_long: "32 \<le> LENGTH('l::len) \<Longrightarrow> uint (ucast (w :: u32) :: 'l word) = uint w"
  by (simp only: uint_nat unat_ucast_u32_long)

lemma uint_ucast_long_u32: "uint (ucast (x :: 'l::len word) :: u32) = uint x mod 2 ^ 32"
  by (simp add: unsigned_ucast_eq take_bit_eq_mod)

lemma uint_ucast_long_u8: "uint (ucast (x :: 'l::len word) :: u8) = uint x mod 2 ^ 8"
  by (simp add: unsigned_ucast_eq take_bit_eq_mod)

lemma sdiv_nonneg: "0 \<le> (k::int) \<Longrightarrow> 0 \<le> l \<Longrightarrow> k sdiv l = k div l"
  by (cases "k = 0"; cases "l = 0") (simp_all add: signed_divide_int_def sgn_if)

lemma uint_div_long_uint:
  assumes L: "32 \<le> LENGTH('l::len)"
    and a: "uint (a :: 'l word) < 2 ^ 32" and b: "uint (b :: 'l word) < 2 ^ 31"
  shows "uint (div_long_uint a b) = uint a div uint b"
proof (cases "LENGTH('l) \<le> 32")
  case True
  then show ?thesis by (simp add: div_long_uint_def uint_div_distrib)
next
  case False
  then have "(2::int) ^ 32 \<le> 2 ^ (LENGTH('l) - Suc 0)"
    by (intro power_increasing) auto
  with a b have sa: "sint a = uint a" and sb: "sint b = uint b"
    by (auto intro!: sint_eq_uint)
  have nn: "0 \<le> uint a" "0 \<le> uint b" by simp_all
  have q: "uint a div uint b = int (unat a div unat b)"
    by (simp add: zdiv_int)
  have "unat a div unat b \<le> unat a" by (rule div_le_dividend)
  also have "unat a < 2 ^ LENGTH('l)" by (rule unsigned_less)
  finally have "int (unat a div unat b) < int (2 ^ LENGTH('l))"
    by (simp only: of_nat_less_iff)
  then have "uint a div uint b < 2 ^ LENGTH('l)"
    unfolding q by simp
  moreover have "0 \<le> uint a div uint b" unfolding q by simp
  ultimately show ?thesis
    using False nn
    by (simp add: div_long_uint_def long_sdiv_def sa sb sdiv_nonneg
        uint_word_of_int take_bit_int_eq_self)
qed

lemma take_bit_long:
  assumes "32 \<le> LENGTH('l::len)" "0 \<le> (k::int)" "k < 2 ^ 32"
  shows "take_bit LENGTH('l) k = k"
proof -
  have "(2::int) ^ 32 \<le> 2 ^ LENGTH('l)" using assms(1) by (intro power_increasing) auto
  with assms(2,3) show ?thesis by (simp add: take_bit_int_eq_self)
qed

lemma signed_take_bit_long:
  assumes "32 \<le> LENGTH('l::len)" "- (2 ^ 31) \<le> (k::int)" "k < 2 ^ 31"
  shows "signed_take_bit (LENGTH('l) - Suc 0) k = k"
proof -
  from long_pow_bound [OF assms(1)] assms(2,3)
  have "- (2 ^ (LENGTH('l) - Suc 0)) \<le> k" "k < 2 ^ (LENGTH('l) - Suc 0)" by linarith+
  then show ?thesis
    by (simp add: signed_take_bit_int_eq_self)
qed

lemma sint_eq_uint_long:
  assumes "32 \<le> LENGTH('l::len)" "uint (x :: 'l word) < 2 ^ 31"
  shows "sint x = uint x"
  using long_pow_bound [OF assms(1)] assms(2) by (intro sint_eq_uint) linarith

lemma uint_mult_long:
  assumes "32 \<le> LENGTH('l::len)" "uint (a :: 'l word) * uint b < 2 ^ 32"
  shows "uint (a * b) = uint a * uint b"
proof -
  have "(2::int) ^ 32 \<le> 2 ^ LENGTH('l)" using assms(1) by (intro power_increasing) auto
  with assms(2) have "uint a * uint b < 2 ^ LENGTH('l)" by linarith
  moreover have "0 \<le> uint a * uint b" by simp
  ultimately show ?thesis by (simp add: uint_word_ariths)
qed

section \<open>Facts about the setters\<close>

text \<open>
  What each setter stores, the values of the two register encodings, and the
  preservation of the invariant \<open>consistent\<close> by each setter.
\<close>

lemma cfg_set_dur:
  "fst (snd (lsm303dlx_a_set_dur m p c ap d)) =
     c\<lparr>dur := ucast d,
       reg_dur := ucast (if (0x7F :: 'l word) <s div_long_uint (d * ucast (odr c)) 1000000 then 0x7F
                         else div_long_uint (d * ucast (odr c)) 1000000)\<rparr>"
  for d :: "'l::len word"
  by (simp add: lsm303dlx_a_set_dur_def LSM303DLx_MAX_DUR_def Let_def split: prod.split)

lemma reg_dur_value:
  fixes d :: "'l::len word" and q :: "'l word"
  assumes L: "32 \<le> LENGTH('l)" and p: "uint d * uint (w :: u32) < 2 ^ 32"
  defines "q \<equiv> div_long_uint (d * ucast w) 1000000"
  shows "uint (ucast (if 0x7F <s q then 0x7F else q) :: u8) = min (uint d * uint w div 1000000) 127"
proof -
  have uw: "uint (ucast w :: 'l word) = uint w" using L by (rule uint_ucast_u32_long)
  have prod: "uint (d * ucast w) = uint d * uint w"
    using uint_mult_long [OF L, of d "ucast w"] p by (simp add: uw)
  have m: "uint (1000000 :: 'l word) = 1000000" using L by (simp add: take_bit_long)
  have a: "uint (d * ucast w) < 2 ^ 32" unfolding prod using p .
  have b: "uint (1000000 :: 'l word) < 2 ^ 31" unfolding m by simp
  have uq: "uint q = uint d * uint w div 1000000"
    unfolding q_def uint_div_long_uint [OF L a b] prod m ..
  have nn: "0 \<le> uint d * uint w" by simp
  have qb: "uint q < 4295" "0 \<le> uint q"
    unfolding uq using p by (simp_all add: div_int_pos_iff)
  then have sq: "sint q = uint q" using L by (intro sint_eq_uint_long) simp_all
  have c: "(0x7F <s q) = (127 < uint q)"
    using L by (simp add: word_sless_alt sq signed_take_bit_long)
  have u127: "uint (0x7F :: 'l word) = 127" using L by (simp add: take_bit_long)
  have k: "uint (ucast (0x7F :: 'l word) :: u8) = 127"
    unfolding uint_ucast_long_u8 u127 by simp
  show ?thesis
  proof (cases "127 < uint q")
    case True
    with c have e: "(if 0x7F <s q then 0x7F else q) = 0x7F" by simp
    show ?thesis unfolding e k using True uq by simp
  next
    case False
    with c have e: "(if 0x7F <s q then 0x7F else q) = q" by simp
    from False qb have "uint q mod 2 ^ 8 = uint q" by simp
    then show ?thesis unfolding e uint_ucast_long_u8 using False uq by simp
  qed
qed

lemma ths_value:
  fixes t :: "'l::len word" and F :: u32
  assumes L: "32 \<le> LENGTH('l)" and F: "F = 2048 \<or> F = 4096 \<or> F = 8192" and t: "sint t < 2 ^ 32"
  defines "t2 \<equiv> clamped_ths F t"
  shows "uint (ucast t2 :: u32) < uint F"
    and "uint (ucast (div_long_uint (t2 * 128) (ucast F)) :: u8) = uint (ucast t2 :: u32) * 128 div uint F"
    and "uint (ucast t2 :: u32) =
           (if uint F \<le> uint t mod 2 ^ 32 then uint F - 1 else if sint t < 0 then 0 else sint t)"
proof -
  define t1 where "t1 = (if F \<le> (ucast t :: u32) then ucast F - 1 else t)"
  have t2: "t2 = (if t1 <s 0 then 0 else t1)"
    by (simp add: t2_def clamped_ths_def t1_def)
  have f: "uint F = 2048 \<or> uint F = 4096 \<or> uint F = 8192" using F by auto
  have uF: "uint (ucast F :: 'l word) = uint F" using L by (rule uint_ucast_u32_long)
  have TT: "0 \<le> uint t2 \<and> uint t2 < uint F \<and>
      uint t2 = (if uint F \<le> uint t mod 2 ^ 32 then uint F - 1 else if sint t < 0 then 0 else sint t)"
  proof (cases "F \<le> (ucast t :: u32)")
    case True
    then have t1: "t1 = ucast F - 1" by (simp add: t1_def)
    from True have ge: "uint F \<le> uint t mod 2 ^ 32"
      by (simp add: word_le_def uint_ucast_long_u32)
    have "uint (1 :: 'l word) \<le> uint (ucast F :: 'l word)" unfolding uF using f by auto
    then have "uint (ucast F - 1 :: 'l word) = uint (ucast F :: 'l word) - uint (1 :: 'l word)"
      by (rule uint_sub_lem [THEN iffD1])
    then have u1: "uint t1 = uint F - 1"
      unfolding t1 uF by simp
    then have "sint t1 = uint t1" using L f by (intro sint_eq_uint_long) auto
    with u1 f have "\<not> t1 <s 0" by (auto simp add: word_sless_alt)
    then have "t2 = t1" by (simp add: t2)
    with u1 f ge show ?thesis by auto
  next
    case False
    then have t1: "t1 = t" by (simp add: t1_def)
    from False have lt: "uint t mod 2 ^ 32 < uint F"
      by (simp add: word_le_def uint_ucast_long_u32)
    show ?thesis
    proof (cases "sint t < 0")
      case True
      then have "t2 = 0" by (simp add: t2 t1 word_sless_alt)
      with f lt True show ?thesis by auto
    next
      case False
      then have ut: "uint t = sint t" by (intro uint_of_sint) simp
      with t False have "uint t mod 2 ^ 32 = uint t" by simp
      with lt have "uint t < uint F" by simp
      moreover from False have "t2 = t" by (simp add: t2 t1 word_sless_alt)
      ultimately show ?thesis using lt False ut by simp
    qed
  qed
  then have T: "0 \<le> uint t2 \<and> uint t2 < uint F" by blast
  then have b: "uint t2 < 8192" using f by auto
  from T b have c32: "uint (ucast t2 :: u32) = uint t2"
    by (simp add: uint_ucast_long_u32)
  show "uint (ucast t2 :: u32) < uint F" unfolding c32 using T by simp
  show "uint (ucast t2 :: u32) =
           (if uint F \<le> uint t mod 2 ^ 32 then uint F - 1 else if sint t < 0 then 0 else sint t)"
    unfolding c32 using TT by blast
  have u128: "uint (128 :: 'l word) = 128" using L by (simp add: take_bit_long)
  have "uint t2 * uint (128 :: 'l word) < 2 ^ 32" unfolding u128 using b T by simp
  then have m: "uint (t2 * 128) = uint t2 * 128"
    using uint_mult_long [OF L, of t2 128] by (simp only: u128)
  have a: "uint (t2 * 128) < 2 ^ 32" unfolding m using b T by simp
  have bb: "uint (ucast F :: 'l word) < 2 ^ 31" unfolding uF using f by auto
  have q: "uint (div_long_uint (t2 * 128) (ucast F)) = uint t2 * 128 div uint F"
    unfolding uint_div_long_uint [OF L a bb] m uF ..
  have "uint t2 * 128 div uint F < 128" using T f by auto
  moreover have "0 \<le> uint t2 * 128 div uint F" by (simp add: div_int_pos_iff)
  ultimately have "(uint t2 * 128 div uint F) mod 2 ^ 8 = uint t2 * 128 div uint F" by simp
  then show "uint (ucast (div_long_uint (t2 * 128) (ucast F)) :: u8) = uint (ucast t2 :: u32) * 128 div uint F"
    unfolding uint_ucast_long_u8 q c32 .
qed

lemma set_ths_Some:
  fixes t :: "'l::len word"
  assumes "fsr c \<noteq> 0"
  shows "\<exists>r m'. lsm303dlx_a_set_ths m p c ap t =
     Some (r, c\<lparr>ths := ucast (clamped_ths (fsr c) t),
               reg_ths := ucast (div_long_uint (clamped_ths (fsr c) t * 128) (ucast (fsr c)))\<rparr>, m')"
  using assms
  by (simp add: lsm303dlx_a_set_ths_def clamped_ths_def Let_def split: prod.split)

lemma set_ths_consistent:
  fixes t :: "'l::len word"
  assumes L: "32 \<le> LENGTH('l)" and c: "consistent c" and t: "sint t < 2 ^ 32"
  shows "\<exists>r c' m'. lsm303dlx_a_set_ths m p c ap t = Some (r, c', m') \<and> consistent c'"
proof -
  from c have F: "fsr c = 2048 \<or> fsr c = 4096 \<or> fsr c = 8192" by (simp add: consistent_def)
  then have nz: "fsr c \<noteq> 0" by auto
  from set_ths_Some [OF nz, of m p ap t] obtain r m' where
    e: "lsm303dlx_a_set_ths m p c ap t =
     Some (r, c\<lparr>ths := ucast (clamped_ths (fsr c) t),
               reg_ths := ucast (div_long_uint (clamped_ths (fsr c) t * 128) (ucast (fsr c)))\<rparr>, m')"
    by blast
  show ?thesis
    unfolding e using c F ths_value(1,2) [OF L F t]
    by (simp add: consistent_def)
qed

lemma sint_le_uint: "sint (x :: 'l::len word) \<le> uint x"
  by (simp add: sint_uint_cases)

lemma new_config_set_dur:
  "new_config (lsm303dlx_a_set_dur m p c ap d) =
     c\<lparr>dur := ucast d,
       reg_dur := ucast (if (0x7F :: 'l word) <s div_long_uint (d * ucast (odr c)) 1000000 then 0x7F
                         else div_long_uint (d * ucast (odr c)) 1000000)\<rparr>"
  for d :: "'l::len word"
  by (simp add: new_config_def cfg_set_dur)

lemma set_dur_consistent:
  fixes d :: "'l::len word"
  assumes L: "32 \<le> LENGTH('l)" and c: "consistent c"
    and d: "uint d < 2 ^ 32" and p: "uint d * uint (odr c) < 2 ^ 32"
  shows "consistent (new_config (lsm303dlx_a_set_dur m p' c ap d))"
proof -
  have "uint (ucast d :: u32) = uint d" using d by (simp add: uint_ucast_long_u32)
  then show ?thesis
    using c reg_dur_value [OF L p]
    by (simp add: new_config_set_dur consistent_def)
qed

lemma new_config_set_odr:
  fixes x :: "'l::len word"
  assumes L: "32 \<le> LENGTH('l)"
  shows "new_config (lsm303dlx_a_set_odr m p c ap x) =
     c\<lparr>odr := fst (odr_tier x),
       ctrl_reg1 := snd (odr_tier x) OR (ctrl_reg1 c AND 0x7),
       reg_dur := ucast (if 0x7F <s div_long_uint ((ucast (dur c) :: 'l word) * ucast (fst (odr_tier x))) 1000000
                         then 0x7F
                         else div_long_uint ((ucast (dur c) :: 'l word) * ucast (fst (odr_tier x))) 1000000)\<rparr>"
proof -
  have "(ucast (ucast (dur c) :: 'l word) :: u32) = dur c" using L by (rule ucast_long_u32_id)
  then show ?thesis
    by (simp add: lsm303dlx_a_set_odr_def new_config_def Let_def case_prod_beta cfg_set_dur)
qed

lemma set_odr_consistent:
  fixes x :: "'l::len word"
  assumes L: "32 \<le> LENGTH('l)" and c: "consistent c"
    and p: "uint (dur c) * uint (fst (odr_tier x)) < 2 ^ 32"
  shows "consistent (new_config (lsm303dlx_a_set_odr m p' c ap x))"
proof -
  have u: "uint (ucast (dur c) :: 'l word) = uint (dur c)" using L by (rule uint_ucast_u32_long)
  from p have "uint (ucast (dur c) :: 'l word) * uint (fst (odr_tier x)) < 2 ^ 32" unfolding u .
  from reg_dur_value [OF L this] c show ?thesis
    by (simp add: new_config_set_odr [OF L] consistent_def u)
qed

lemma new_config_set_irq:
  "new_config (lsm303dlx_a_set_irq m p c ap x) = c\<lparr>irq_type := ucast x\<rparr>"
  by (simp add: lsm303dlx_a_set_irq_def new_config_def Let_def split: prod.split)

lemma set_irq_consistent:
  "consistent c \<Longrightarrow> consistent (new_config (lsm303dlx_a_set_irq m p c ap x))"
  by (simp add: new_config_set_irq consistent_def)

lemma fsr_tier_cases: "fst (fsr_tier x) = 2048 \<or> fst (fsr_tier x) = 4096 \<or> fst (fsr_tier x) = 8192"
  by (simp add: fsr_tier_def)

lemma set_fsr_Some:
  fixes x :: "'l::len word"
  shows "\<exists>r m'. lsm303dlx_a_set_fsr m p c ap x =
     Some (r, c\<lparr>fsr := fst (fsr_tier x),
               ths := ucast (clamped_ths (fst (fsr_tier x)) (ucast (ths c) :: 'l word)),
               reg_ths := ucast (div_long_uint
                  (clamped_ths (fst (fsr_tier x)) (ucast (ths c) :: 'l word) * 128)
                  (ucast (fst (fsr_tier x))))\<rparr>, m')"
proof -
  have nz: "fsr (c\<lparr>fsr := fst (fsr_tier x)\<rparr>) \<noteq> 0"
    using fsr_tier_cases [of x] by auto
  from set_ths_Some [OF nz, of m p ap "ucast (ths c) :: 'l word"]
  show ?thesis
    by (auto simp add: lsm303dlx_a_set_fsr_def Let_def split: prod.split)
qed

lemma set_fsr_consistent:
  fixes x :: "'l::len word"
  assumes L: "32 \<le> LENGTH('l)"
    and c: "uint (reg_dur c) = min (uint (dur c) * uint (odr c) div 1000000) 0x7F"
  shows "\<exists>r c' m'. lsm303dlx_a_set_fsr m p c ap x = Some (r, c', m') \<and> consistent c' \<and>
           fsr c' = fst (fsr_tier x) \<and>
           uint (ths c') = min (uint (ths c)) (uint (fsr c') - 1)"
proof -
  let ?F = "fst (fsr_tier x)"
  let ?t = "ucast (ths c) :: 'l word"
  have F: "?F = 2048 \<or> ?F = 4096 \<or> ?F = 8192" by (rule fsr_tier_cases)
  have ut: "uint ?t = uint (ths c)" using L by (rule uint_ucast_u32_long)
  have "sint ?t \<le> uint ?t" by (rule sint_le_uint)
  also have "uint ?t < 2 ^ 32" unfolding ut using uint_lt2p [of "ths c"] by simp
  finally have t: "sint ?t < 2 ^ 32" .
  note v = ths_value [OF L F t]
  have m: "uint (ths c) mod 2 ^ 32 = uint (ths c)"
    using uint_lt2p [of "ths c"] by simp
  have val: "uint (ucast (clamped_ths ?F ?t) :: u32) = min (uint (ths c)) (uint ?F - 1)"
  proof (cases "uint ?F \<le> uint (ths c)")
    case True
    then show ?thesis unfolding v(3) ut m by simp
  next
    case False
    with F have "uint ?t < 2 ^ 31" unfolding ut by auto
    then have "sint ?t = uint ?t" by (rule sint_eq_uint_long [OF L])
    with False show ?thesis unfolding v(3) ut m by (simp add: ut)
  qed
  from set_fsr_Some [of m p c ap x] obtain r m' where
    e: "lsm303dlx_a_set_fsr m p c ap x =
     Some (r, c\<lparr>fsr := ?F,
               ths := ucast (clamped_ths ?F ?t),
               reg_ths := ucast (div_long_uint (clamped_ths ?F ?t * 128) (ucast ?F))\<rparr>, m')"
    by blast
  show ?thesis
    unfolding e using c F v(1,2) val
    by (simp add: consistent_def)
qed

lemma set_ths_no_apply:
  fixes t :: "'l::len word"
  assumes "fsr c \<noteq> 0"
  shows "lsm303dlx_a_set_ths m p c False t =
     Some (INV_SUCCESS, c\<lparr>ths := ucast (clamped_ths (fsr c) t),
               reg_ths := ucast (div_long_uint (clamped_ths (fsr c) t * 128) (ucast (fsr c)))\<rparr>, m)"
  using assms
  by (simp add: lsm303dlx_a_set_ths_def clamped_ths_def Let_def)

lemma fsr_tier_nz [simp]: "fst (fsr_tier x) \<noteq> 0"
  using fsr_tier_cases [of x] by auto

lemma set_fsr_no_apply:
  fixes x :: "'l::len word"
  shows "lsm303dlx_a_set_fsr m p c False x =
     Some (INV_SUCCESS, c\<lparr>fsr := fst (fsr_tier x),
               ths := ucast (clamped_ths (fst (fsr_tier x)) (ucast (ths c) :: 'l word)),
               reg_ths := ucast (div_long_uint
                  (clamped_ths (fst (fsr_tier x)) (ucast (ths c) :: 'l word) * 128)
                  (ucast (fst (fsr_tier x))))\<rparr>, m)"
  by (simp add: lsm303dlx_a_set_fsr_def Let_def case_prod_beta set_ths_no_apply)

lemma set_dur_no_apply:
  fixes d :: "'l::len word"
  shows "lsm303dlx_a_set_dur m p c False d =
     (INV_SUCCESS, c\<lparr>dur := ucast d,
       reg_dur := ucast (if 0x7F <s div_long_uint (d * ucast (odr c)) 1000000 then 0x7F
                         else div_long_uint (d * ucast (odr c)) 1000000)\<rparr>, m)"
  by (simp add: lsm303dlx_a_set_dur_def LSM303DLx_MAX_DUR_def Let_def)

lemma set_odr_no_apply:
  fixes x :: "'l::len word"
  assumes L: "32 \<le> LENGTH('l)"
  shows "lsm303dlx_a_set_odr m p c False x =
     (INV_SUCCESS, c\<lparr>odr := fst (odr_tier x),
       ctrl_reg1 := snd (odr_tier x) OR (ctrl_reg1 c AND 0x7),
       reg_dur := ucast (if 0x7F <s div_long_uint ((ucast (dur c) :: 'l word) * ucast (fst (odr_tier x))) 1000000
                         then 0x7F
                         else div_long_uint ((ucast (dur c) :: 'l word) * ucast (fst (odr_tier x))) 1000000)\<rparr>, m)"
proof -
  have "(ucast (ucast (dur c) :: 'l word) :: u32) = dur c" using L by (rule ucast_long_u32_id)
  then show ?thesis
    by (simp add: lsm303dlx_a_set_odr_def Let_def case_prod_beta set_dur_no_apply)
qed

lemma set_irq_no_apply:
  "lsm303dlx_a_set_irq m p c False x = (INV_SUCCESS, c\<lparr>irq_type := ucast x\<rparr>, m)"
  by (simp add: lsm303dlx_a_set_irq_def Let_def case_prod_beta)

lemma odr_tier_fst:
  "32 \<le> LENGTH('l::len) \<Longrightarrow> fst (odr_tier (x :: 'l word)) =
     (if 400000 < sint x then 1000000 else if 100000 < sint x then 400000
      else if 50000 < sint x then 100000 else if 10000 < sint x then 50000
      else if 5000 < sint x then 10000 else if 2000 < sint x then 5000
      else if 1000 < sint x then 2000 else if 500 < sint x then 1000
      else if 0 < sint x then 500 else 0)"
  by (simp add: odr_tier_def word_sless_alt signed_take_bit_long)

lemma setter_chain_consistent:
  fixes x rg t d i :: "'l::len word"
  assumes L: "32 \<le> LENGTH('l)" and c0: "dur c0 = 0"
    and p: "uint d * uint (fst (odr_tier x)) < 2 ^ 32" and d: "uint d < 2 ^ 32"
    and t: "sint t < 2 ^ 32"
  shows "\<exists>c1 c2 c3 c4 c5.
           lsm303dlx_a_set_odr m pd c0 False x = (INV_SUCCESS, c1, m) \<and>
           lsm303dlx_a_set_fsr m pd c1 False rg = Some (INV_SUCCESS, c2, m) \<and>
           lsm303dlx_a_set_ths m pd c2 False t = Some (INV_SUCCESS, c3, m) \<and>
           lsm303dlx_a_set_dur m pd c3 False d = (INV_SUCCESS, c4, m) \<and>
           lsm303dlx_a_set_irq m pd c4 False i = (INV_SUCCESS, c5, m) \<and>
           consistent c5"
proof -
  obtain c1 where e1: "lsm303dlx_a_set_odr m pd c0 False x = (INV_SUCCESS, c1, m)"
    and o1: "odr c1 = fst (odr_tier x)"
    using set_odr_no_apply [OF L, of m pd c0 x] by simp
  have n1: "new_config (lsm303dlx_a_set_odr m pd c0 False x) = c1"
    by (simp add: e1 new_config_def)
  have z: "uint (ucast (dur c0) :: 'l word) * uint (fst (odr_tier x)) < 2 ^ 32"
    by (simp add: c0)
  have d1: "uint (reg_dur c1) = min (uint (dur c1) * uint (odr c1) div 1000000) 0x7F"
    using reg_dur_value [OF L z] unfolding n1 [symmetric] new_config_set_odr [OF L]
    by (simp add: c0)
  from set_fsr_consistent [OF L d1, of m pd False rg] obtain r2 c2 m2 where
    e2: "lsm303dlx_a_set_fsr m pd c1 False rg = Some (r2, c2, m2)" and k2: "consistent c2"
    by blast
  from e2 have r2: "r2 = INV_SUCCESS" "m2 = m" and o2: "odr c2 = odr c1"
    unfolding set_fsr_no_apply by auto
  from k2 have nz: "fsr c2 \<noteq> 0" by (auto simp add: consistent_def)
  from set_ths_consistent [OF L k2 t, of m pd False] obtain r3 c3 m3 where
    e3: "lsm303dlx_a_set_ths m pd c2 False t = Some (r3, c3, m3)" and k3: "consistent c3"
    by blast
  from e3 have r3: "r3 = INV_SUCCESS" "m3 = m" and o3: "odr c3 = odr c2"
    unfolding set_ths_no_apply [OF nz] by auto
  have p3: "uint d * uint (odr c3) < 2 ^ 32" unfolding o3 o2 o1 by (rule p)
  obtain c4 where e4: "lsm303dlx_a_set_dur m pd c3 False d = (INV_SUCCESS, c4, m)"
    using set_dur_no_apply [of m pd c3 d] by simp
  have k4: "consistent c4"
    using set_dur_consistent [OF L k3 d p3, of m pd False] by (simp add: e4 new_config_def)
  obtain c5 where e5: "lsm303dlx_a_set_irq m pd c4 False i = (INV_SUCCESS, c5, m)"
    using set_irq_no_apply [of m pd c4 i] by simp
  have k5: "consistent c5"
    using set_irq_consistent [OF k4, of m pd False i] by (simp add: e5 new_config_def)
  show ?thesis using e1 e2 e3 e4 e5 k5 r2 r3 by blast
qed

lemma init_consistent:
  fixes range_mg :: "'l::len word"
  assumes L: "32 \<le> LENGTH('l)"
  shows "\<exists>pd. lsm303dlx_a_init e True range_mg m slave pdata = Some (INV_SUCCESS, pd, m) \<and>
           consistent (suspend (private_data pd)) \<and> consistent (resume (private_data pd))"
proof -
  have o0: "fst (odr_tier (0 :: 'l word)) = 0"
    using L by (simp add: odr_tier_fst)
  have o2: "fst (odr_tier (200000 :: 'l word)) = 400000"
    using L by (simp add: odr_tier_fst signed_take_bit_long)
  have t80: "sint (80 :: 'l word) < 2 ^ 32" and t40: "sint (40 :: 'l word) < 2 ^ 32"
    using L by (simp_all add: signed_take_bit_long)
  have u1000: "uint (1000 :: 'l word) = 1000" and u2540: "uint (2540 :: 'l word) = 2540"
    using L by (simp_all add: take_bit_long)
  have p1: "uint (1000 :: 'l word) * uint (fst (odr_tier (0 :: 'l word))) < 2 ^ 32"
    unfolding o0 by simp
  have p2: "uint (2540 :: 'l word) * uint (fst (odr_tier (200000 :: 'l word))) < 2 ^ 32"
    unfolding o2 u2540 by simp
  have b1: "uint (1000 :: 'l word) < 2 ^ 32" and b2: "uint (2540 :: 'l word) < 2 ^ 32"
    unfolding u1000 u2540 by simp_all
  let ?s0 = "kzalloc_config\<lparr>ctrl_reg1 := 0x47, mot_int1_cfg := 0x2a\<rparr>"
  let ?r0 = "kzalloc_config\<lparr>ctrl_reg1 := 0x37, mot_int1_cfg := 0x95\<rparr>"
  have z: "dur ?s0 = 0" "dur ?r0 = 0" by (simp_all add: kzalloc_config_def)
  from setter_chain_consistent [OF L z(1) p1 b1 t80, of m pdata range_mg "of_nat MPU_SLAVE_IRQ_TYPE_NONE"]
  obtain s1 s2 s3 s4 s5 where
    s: "lsm303dlx_a_set_odr m pdata ?s0 False (0 :: 'l word) = (INV_SUCCESS, s1, m)"
       "lsm303dlx_a_set_fsr m pdata s1 False range_mg = Some (INV_SUCCESS, s2, m)"
       "lsm303dlx_a_set_ths m pdata s2 False (80 :: 'l word) = Some (INV_SUCCESS, s3, m)"
       "lsm303dlx_a_set_dur m pdata s3 False (1000 :: 'l word) = (INV_SUCCESS, s4, m)"
       "lsm303dlx_a_set_irq m pdata s4 False (of_nat MPU_SLAVE_IRQ_TYPE_NONE :: 'l word) = (INV_SUCCESS, s5, m)"
    and ks: "consistent s5"
    by blast
  from setter_chain_consistent [OF L z(2) p2 b2 t40, of m pdata range_mg "of_nat MPU_SLAVE_IRQ_TYPE_NONE"]
  obtain r1 r2 r3 r4 r5 where
    r: "lsm303dlx_a_set_odr m pdata ?r0 False (200000 :: 'l word) = (INV_SUCCESS, r1, m)"
       "lsm303dlx_a_set_fsr m pdata r1 False range_mg = Some (INV_SUCCESS, r2, m)"
       "lsm303dlx_a_set_ths m pdata r2 False (40 :: 'l word) = Some (INV_SUCCESS, r3, m)"
       "lsm303dlx_a_set_dur m pdata r3 False (2540 :: 'l word) = (INV_SUCCESS, r4, m)"
       "lsm303dlx_a_set_irq m pdata r4 False (of_nat MPU_SLAVE_IRQ_TYPE_NONE :: 'l word) = (INV_SUCCESS, r5, m)"
    and kr: "consistent r5"
    by blast
  have "lsm303dlx_a_init e True range_mg m slave pdata =
      Some (INV_SUCCESS, pdata\<lparr>private_data := \<lparr>suspend = s5, resume = r5\<rparr>\<rparr>, m)"
    by (simp add: lsm303dlx_a_init_def Let_def s r)
  with ks kr show ?thesis by simp
qed

lemma odr_new_config_set_odr:
  "32 \<le> LENGTH('l::len) \<Longrightarrow>
     odr (new_config (lsm303dlx_a_set_odr m p c ap (x :: 'l word))) = fst (odr_tier x)"
  by (simp add: new_config_set_odr)

lemmas setter_eval = set_odr_no_apply set_fsr_no_apply set_ths_no_apply set_dur_no_apply
  set_irq_no_apply odr_tier_def fsr_tier_def clamped_ths_def div_long_uint_def long_sdiv_def
  LSM303DLx_PWR_MODE_NORMAL_def word_sless_alt word_sle_eq word_le_def
  signed_divide_int_def kzalloc_config_def

lemma init_defaults:
  "lsm303dlx_a_init e True (2048 :: 32 word) quiet_bus lsm303dlx_a_descr blank_pdata =
     Some (INV_SUCCESS,
       blank_pdata\<lparr>private_data := \<lparr>suspend = suspend_defaults, resume = resume_defaults\<rparr>\<rparr>,
       quiet_bus)"
  "lsm303dlx_a_init e True (2048 :: 64 word) quiet_bus lsm303dlx_a_descr blank_pdata =
     Some (INV_SUCCESS,
       blank_pdata\<lparr>private_data := \<lparr>suspend = suspend_defaults, resume = resume_defaults\<rparr>\<rparr>,
       quiet_bus)"
  by (simp_all add: lsm303dlx_a_init_def setter_eval resume_defaults_def suspend_defaults_def
      MPU_SLAVE_IRQ_TYPE_NONE_def)

lemma odr_tier_snd_low_bits: "snd (odr_tier x) AND 0x7 = 0"
  by (simp add: odr_tier_def LSM303DLx_PWR_MODE_NORMAL_def)

lemma keep_low_bits: "b AND 0x7 = 0 \<Longrightarrow> (b OR (c AND 0x7)) AND 0x7 = c AND (0x7 :: u8)"
  by (simp add: bit.conj_disj_distrib2 and.assoc)

lemma fsr_tier_eq:
  "32 \<le> LENGTH('l::len) \<Longrightarrow> fsr_tier (x :: 'l word) =
     (if sint x \<le> 2048 then (2048, 0x40) else if sint x \<le> 4096 then (4096, 0x70) else (8192, 0x50))"
  by (simp add: fsr_tier_def word_sle_eq signed_take_bit_long)

lemma set_ths_apply:
  fixes t :: "'l::len word"
  assumes "fsr c \<noteq> 0"
  shows "lsm303dlx_a_set_ths m p c True t =
     Some (fst (transport m (issued m)
               (Single_Write (address p) LSM303DLx_INT1_THS
                  (ucast (div_long_uint (clamped_ths (fsr c) t * 128) (ucast (fsr c)))))),
           c\<lparr>ths := ucast (clamped_ths (fsr c) t),
               reg_ths := ucast (div_long_uint (clamped_ths (fsr c) t * 128) (ucast (fsr c)))\<rparr>,
           m\<lparr>issued := issued m @
               [Single_Write (address p) LSM303DLx_INT1_THS
                  (ucast (div_long_uint (clamped_ths (fsr c) t * 128) (ucast (fsr c))))]\<rparr>)"
  using assms
  by (simp add: lsm303dlx_a_set_ths_def clamped_ths_def inv_serial_single_write_def Let_def)

lemma set_fsr_apply:
  fixes x :: "'l::len word"
  shows "\<exists>r c'. lsm303dlx_a_set_fsr m p c True x =
     Some (r, c',
           m\<lparr>issued := issued m @
               [Single_Write (address p) LSM303DLx_INT1_THS (reg_ths c'),
                Single_Write (address p) LSM303DLx_CTRL_REG4 (snd (fsr_tier x))]\<rparr>) \<and>
     fsr c' = fst (fsr_tier x) \<and>
     r = fst (transport m (issued m @ [Single_Write (address p) LSM303DLx_INT1_THS (reg_ths c')])
               (Single_Write (address p) LSM303DLx_CTRL_REG4 (snd (fsr_tier x))))"
  by (simp add: lsm303dlx_a_set_fsr_def Let_def case_prod_beta set_ths_apply
      inv_serial_single_write_def)

text \<open>
  With a \<^verbatim>\<open>long\<close> of at least 64 bits the product of a duration below \<open>2 ^ 32\<close>
  and a rate below \<open>2 ^ 31\<close> does not wrap around, and the division is the signed
  one.
\<close>

lemma uint_div_long_uint_wide:
  assumes W: "32 < LENGTH('l::len)"
    and a: "uint (a :: 'l word) < 2 ^ (LENGTH('l) - Suc 0)"
    and b: "uint (b :: 'l word) < 2 ^ (LENGTH('l) - Suc 0)"
  shows "uint (div_long_uint a b) = uint a div uint b"
proof -
  from a b have sa: "sint a = uint a" and sb: "sint b = uint b"
    by (auto intro!: sint_eq_uint)
  have nn: "0 \<le> uint a" "0 \<le> uint b" by simp_all
  have q: "uint a div uint b = int (unat a div unat b)"
    by (simp add: zdiv_int)
  have "unat a div unat b \<le> unat a" by (rule div_le_dividend)
  also have "unat a < 2 ^ LENGTH('l)" by (rule unsigned_less)
  finally have "int (unat a div unat b) < int (2 ^ LENGTH('l))"
    by (simp only: of_nat_less_iff)
  then have "uint a div uint b < 2 ^ LENGTH('l)"
    unfolding q by simp
  moreover have "0 \<le> uint a div uint b" unfolding q by simp
  ultimately show ?thesis
    using W nn
    by (simp add: div_long_uint_def long_sdiv_def sa sb sdiv_nonneg
        uint_word_of_int take_bit_int_eq_self)
qed

lemma reg_dur_value_wide:
  fixes d :: "'l::len word" and q :: "'l word"
  assumes L: "64 \<le> LENGTH('l)" and d: "uint d < 2 ^ 32" and w: "uint (w :: u32) < 2 ^ 31"
  defines "q \<equiv> div_long_uint (d * ucast w) 1000000"
  shows "uint (ucast (if 0x7F <s q then 0x7F else q) :: u8) = min (uint d * uint w div 1000000) 127"
proof -
  have L32: "32 \<le> LENGTH('l)" and W: "32 < LENGTH('l)" using L by simp_all
  have pw: "(2::int) ^ 63 \<le> 2 ^ (LENGTH('l) - Suc 0)"
    using L by (intro power_increasing) auto
  have pw': "(2::int) ^ (LENGTH('l) - Suc 0) < 2 ^ LENGTH('l)"
    by (intro power_strict_increasing) auto
  have uw: "uint (ucast w :: 'l word) = uint w" using L32 by (rule uint_ucast_u32_long)
  have "uint d * uint w \<le> (2 ^ 32 - 1) * (2 ^ 31 - 1)"
    using d w by (intro mult_mono) simp_all
  then have p63: "uint d * uint w < 2 ^ 63" by simp
  have nn: "0 \<le> uint d * uint w" by simp
  have "uint d * uint w < 2 ^ LENGTH('l)" using p63 pw pw' by linarith
  then have "uint d * uint w mod 2 ^ LENGTH('l) = uint d * uint w"
    using nn by (rule mod_pos_pos_trivial [OF _ _, rotated])
  then have prod: "uint (d * ucast w) = uint d * uint w"
    by (simp add: uint_word_ariths uw)
  have m: "uint (1000000 :: 'l word) = 1000000" using L32 by (simp add: take_bit_long)
  have a: "uint (d * ucast w) < 2 ^ (LENGTH('l) - Suc 0)" unfolding prod using p63 pw by linarith
  have b: "uint (1000000 :: 'l word) < 2 ^ (LENGTH('l) - Suc 0)" unfolding m using pw by simp
  have uq: "uint q = uint d * uint w div 1000000"
    unfolding q_def uint_div_long_uint_wide [OF W a b] prod m ..
  have "uint q \<le> uint d * uint w"
    unfolding uq using zdiv_mono2 [of "uint d * uint w" 1 1000000] nn by simp
  with p63 pw have "uint q < 2 ^ (LENGTH('l) - Suc 0)" by linarith
  then have sq: "sint q = uint q" by (rule sint_eq_uint)
  have c: "(0x7F <s q) = (127 < uint q)"
    using L32 by (simp add: word_sless_alt sq signed_take_bit_long)
  have u127: "uint (0x7F :: 'l word) = 127" using L32 by (simp add: take_bit_long)
  have k: "uint (ucast (0x7F :: 'l word) :: u8) = 127"
    unfolding uint_ucast_long_u8 u127 by simp
  show ?thesis
  proof (cases "127 < uint q")
    case True
    with c have e: "(if 0x7F <s q then 0x7F else q) = 0x7F" by simp
    show ?thesis unfolding e k using True uq by simp
  next
    case False
    with c have e: "(if 0x7F <s q then 0x7F else q) = q" by simp
    from False have "uint q mod 2 ^ 8 = uint q" by simp
    then show ?thesis unfolding e uint_ucast_long_u8 using False uq by simp
  qed
qed

lemma set_dur_consistent_wide:
  fixes d :: "'l::len word"
  assumes L: "64 \<le> LENGTH('l)" and c: "consistent c"
    and d: "uint d < 2 ^ 32" and w: "uint (odr c) < 2 ^ 31"
  shows "consistent (new_config (lsm303dlx_a_set_dur m p' c ap d))"
proof -
  have "uint (ucast d :: u32) = uint d" using d by (simp add: uint_ucast_long_u32)
  then show ?thesis
    using c reg_dur_value_wide [OF L d w]
    by (simp add: new_config_set_dur consistent_def)
qed

lemma odr_tier_fst_bound: "32 \<le> LENGTH('l::len) \<Longrightarrow> uint (fst (odr_tier (x :: 'l word))) < 2 ^ 31"
  by (simp add: odr_tier_fst)

lemma set_odr_consistent_wide:
  fixes x :: "'l::len word"
  assumes L: "64 \<le> LENGTH('l)" and c: "consistent c"
  shows "consistent (new_config (lsm303dlx_a_set_odr m p' c ap x))"
proof -
  have L32: "32 \<le> LENGTH('l)" using L by simp
  have u: "uint (ucast (dur c) :: 'l word) = uint (dur c)" using L32 by (rule uint_ucast_u32_long)
  have d: "uint (ucast (dur c) :: 'l word) < 2 ^ 32"
    unfolding u using uint_lt2p [of "dur c"] by simp
  from reg_dur_value_wide [OF L d odr_tier_fst_bound [OF L32, of x]] c show ?thesis
    by (simp add: new_config_set_odr [OF L32] consistent_def u)
qed

lemma set_dur_10738:
  "new_config (lsm303dlx_a_set_dur quiet_bus blank_pdata resume_defaults False (10738 :: 32 word))
     = resume_defaults\<lparr>dur := 10738, reg_dur := 0\<rparr>"
  "new_config (lsm303dlx_a_set_dur quiet_bus blank_pdata resume_defaults False (10738 :: 64 word))
     = resume_defaults\<lparr>dur := 10738, reg_dur := 0x7F\<rparr>"
  by (simp_all add: setter_eval new_config_def resume_defaults_def)

section \<open>Facts about suspend and resume\<close>

lemmas bus_defs = inv_serial_single_write_def inv_serial_read_def step_status_def
  full_scale_byte_def irq_bytes_def Let_def case_prod_beta

lemma resume_unfold:
  "lsm303dlx_a_resume m slave p =
     (let ops = resume_ops p; s = step_status m ops in
      if s 0 \<noteq> 0 then (s 0, m\<lparr>issued := issued m @ take 1 ops\<rparr>)
      else if s 1 \<noteq> 0 then (s 1, m\<lparr>issued := issued m @ take 2 ops\<rparr>)
      else if s 2 \<noteq> 0 then (s 2, m\<lparr>issued := issued m @ take 3 ops\<rparr>)
      else if s 3 \<noteq> 0 then (s 3, m\<lparr>issued := issued m @ take 4 ops\<rparr>)
      else if s 4 \<noteq> 0 then (s 4, m\<lparr>issued := issued m @ take 5 ops\<rparr>)
      else if s 5 \<noteq> 0 then (s 5, m\<lparr>issued := issued m @ take 6 ops\<rparr>)
      else if s 6 \<noteq> 0 then (s 6, m\<lparr>issued := issued m @ take 7 ops\<rparr>)
      else (s 7, m\<lparr>issued := issued m @ take 8 ops\<rparr>))"
  by (simp add: lsm303dlx_a_resume_def resume_ops_def bus_defs)

lemma resume_ops_nth:
  "length (resume_ops p) = 8"
  "resume_ops p ! 1 = Single_Write (address p) LSM303DLx_CTRL_REG4 (full_scale_byte (resume (private_data p)))"
  "take 2 (resume_ops p) =
     [Single_Write (address p) LSM303DLx_CTRL_REG1 (ctrl_reg1 (resume (private_data p))),
      Single_Write (address p) LSM303DLx_CTRL_REG4 (full_scale_byte (resume (private_data p)))]"
  by (simp_all add: resume_ops_def Let_def)

lemma suspend_unfold:
  "lsm303dlx_a_suspend m slave p =
     (step_status m (suspend_ops p) 7, m\<lparr>issued := issued m @ suspend_ops p\<rparr>)"
  by (simp add: lsm303dlx_a_suspend_def suspend_ops_def bus_defs)

section \<open>C1: the invariant of a configuration\<close>

text \<open>
  C1 says that after \<^verbatim>\<open>lsm303dlx_a_init\<close> and after every setter the encodings are
  the ones derived from the physical fields, in particular
  \<open>reg_dur = min (dur * odr div 1000000) 0x7F\<close>. \<^verbatim>\<open>lsm303dlx_a_set_dur\<close> computes
  \<^verbatim>\<open>(dur * config->odr) / 1000000L\<close> and then clamps it to \<open>0x7F\<close>; with a 32-bit
  \<^verbatim>\<open>long\<close> the product wraps around modulo \<open>2 ^ 32\<close> before the clamp. After
  \<^verbatim>\<open>lsm303dlx_a_init\<close> with a range of 2048 mg both configurations are consistent and
  the resume configuration has \<open>odr = 400000\<close>. A duration request of 10738 ms on it
  stores \<open>dur = 10738\<close> with \<open>reg_dur = 0\<close>, where \<open>10738 * 400000 div 1000000 = 4295\<close>
  clamps to \<open>0x7F\<close>: the configuration is no longer consistent. The same request on the
  suspend configuration (\<open>odr = 0\<close>) keeps it consistent, and the following rate request
  of 200000, which selects 400000 and recomputes \<^verbatim>\<open>reg_dur\<close> through
  \<^verbatim>\<open>lsm303dlx_a_set_dur\<close>, stores \<open>reg_dur = 0\<close> again.
\<close>

theorem invariant_lost_after_init:
  "lsm303dlx_a_init 1 True (2048 :: 32 word) quiet_bus lsm303dlx_a_descr blank_pdata =
     Some (INV_SUCCESS,
       blank_pdata\<lparr>private_data := \<lparr>suspend = suspend_defaults, resume = resume_defaults\<rparr>\<rparr>,
       quiet_bus) \<and>
   consistent suspend_defaults \<and> consistent resume_defaults \<and>
   new_config (lsm303dlx_a_set_dur quiet_bus blank_pdata resume_defaults False (10738 :: 32 word))
     = resume_defaults\<lparr>dur := 10738, reg_dur := 0\<rparr> \<and>
   \<not> consistent (new_config
     (lsm303dlx_a_set_dur quiet_bus blank_pdata resume_defaults False (10738 :: 32 word))) \<and>
   consistent (new_config
     (lsm303dlx_a_set_dur quiet_bus blank_pdata suspend_defaults False (10738 :: 32 word))) \<and>
   new_config (lsm303dlx_a_set_odr quiet_bus blank_pdata
      (new_config (lsm303dlx_a_set_dur quiet_bus blank_pdata suspend_defaults False (10738 :: 32 word)))
      False (200000 :: 32 word))
     = suspend_defaults\<lparr>dur := 10738, odr := 400000, ctrl_reg1 := 0x37, reg_dur := 0\<rparr> \<and>
   \<not> consistent (new_config (lsm303dlx_a_set_odr quiet_bus blank_pdata
      (new_config (lsm303dlx_a_set_dur quiet_bus blank_pdata suspend_defaults False (10738 :: 32 word)))
      False (200000 :: 32 word)))"
proof -
  have s: "new_config (lsm303dlx_a_set_dur quiet_bus blank_pdata suspend_defaults False (10738 :: 32 word))
     = suspend_defaults\<lparr>dur := 10738\<rparr>"
    by (simp add: setter_eval new_config_def suspend_defaults_def)
  have o: "new_config (lsm303dlx_a_set_odr quiet_bus blank_pdata (suspend_defaults\<lparr>dur := 10738\<rparr>)
      False (200000 :: 32 word))
     = suspend_defaults\<lparr>dur := 10738, odr := 400000, ctrl_reg1 := 0x37, reg_dur := 0\<rparr>"
    by (simp add: setter_eval new_config_def suspend_defaults_def)
  have c: "consistent suspend_defaults" "consistent resume_defaults"
    "consistent (suspend_defaults\<lparr>dur := 10738\<rparr>)"
    "\<not> consistent (resume_defaults\<lparr>dur := 10738, reg_dur := 0\<rparr>)"
    "\<not> consistent (suspend_defaults\<lparr>dur := 10738, odr := 400000, ctrl_reg1 := 0x37, reg_dur := 0\<rparr>)"
    by (simp_all add: consistent_def suspend_defaults_def resume_defaults_def)
  show ?thesis
    unfolding s o set_dur_10738(1) using c init_defaults(1) [of 1] by simp
qed

text \<open>
  Where the invariant is kept, for every \<^verbatim>\<open>long\<close> of at least 32 bits: after
  \<^verbatim>\<open>lsm303dlx_a_init\<close> for every nominal range; by \<^verbatim>\<open>lsm303dlx_a_set_fsr\<close>
  (the stored threshold becomes \<open>min ths (fsr - 1)\<close>) and \<^verbatim>\<open>lsm303dlx_a_set_irq\<close>
  always; by \<^verbatim>\<open>lsm303dlx_a_set_ths\<close> for every request below \<open>2 ^ 32\<close>; by
  \<^verbatim>\<open>lsm303dlx_a_set_dur\<close> and \<^verbatim>\<open>lsm303dlx_a_set_odr\<close> as long as the product of
  the duration and the rate stays below \<open>2 ^ 32\<close>.
\<close>

lemma setters_keep_consistent:
  fixes rg t x d q i :: "'l::len word"
  assumes L: "32 \<le> LENGTH('l)"
  shows
   "(\<exists>pd. lsm303dlx_a_init e True rg m slave pdata = Some (INV_SUCCESS, pd, m) \<and>
          consistent (suspend (private_data pd)) \<and> consistent (resume (private_data pd))) \<and>
    (consistent c \<longrightarrow> sint t < 2 ^ 32 \<longrightarrow>
       (\<exists>r c' m'. lsm303dlx_a_set_ths m pdata c ap t = Some (r, c', m') \<and> consistent c')) \<and>
    (consistent c \<longrightarrow>
       (\<exists>r c' m'. lsm303dlx_a_set_fsr m pdata c ap x = Some (r, c', m') \<and> consistent c' \<and>
          uint (ths c') = min (uint (ths c)) (uint (fsr c') - 1))) \<and>
    (consistent c \<longrightarrow> uint d < 2 ^ 32 \<longrightarrow> uint d * uint (odr c) < 2 ^ 32 \<longrightarrow>
       consistent (new_config (lsm303dlx_a_set_dur m pdata c ap d))) \<and>
    (consistent c \<longrightarrow>
       uint (dur c) * uint (odr (new_config (lsm303dlx_a_set_odr m pdata c ap q))) < 2 ^ 32 \<longrightarrow>
       consistent (new_config (lsm303dlx_a_set_odr m pdata c ap q))) \<and>
    (consistent c \<longrightarrow> consistent (new_config (lsm303dlx_a_set_irq m pdata c ap i)))"
proof (intro conjI impI)
  show "\<exists>pd. lsm303dlx_a_init e True rg m slave pdata = Some (INV_SUCCESS, pd, m) \<and>
          consistent (suspend (private_data pd)) \<and> consistent (resume (private_data pd))"
    by (rule init_consistent [OF L])
next
  assume "consistent c" "sint t < 2 ^ 32"
  then show "\<exists>r c' m'. lsm303dlx_a_set_ths m pdata c ap t = Some (r, c', m') \<and> consistent c'"
    by (rule set_ths_consistent [OF L])
next
  assume c: "consistent c"
  then have "uint (reg_dur c) = min (uint (dur c) * uint (odr c) div 1000000) 0x7F"
    by (simp add: consistent_def)
  from set_fsr_consistent [OF L this, of m pdata ap x]
  show "\<exists>r c' m'. lsm303dlx_a_set_fsr m pdata c ap x = Some (r, c', m') \<and> consistent c' \<and>
          uint (ths c') = min (uint (ths c)) (uint (fsr c') - 1)"
    by blast
next
  assume "consistent c" "uint d < 2 ^ 32" "uint d * uint (odr c) < 2 ^ 32"
  then show "consistent (new_config (lsm303dlx_a_set_dur m pdata c ap d))"
    by (rule set_dur_consistent [OF L])
next
  assume c: "consistent c"
    and "uint (dur c) * uint (odr (new_config (lsm303dlx_a_set_odr m pdata c ap q))) < 2 ^ 32"
  then have "uint (dur c) * uint (fst (odr_tier q)) < 2 ^ 32"
    by (simp only: odr_new_config_set_odr [OF L])
  with c show "consistent (new_config (lsm303dlx_a_set_odr m pdata c ap q))"
    by (rule set_odr_consistent [OF L])
next
  assume "consistent c"
  then show "consistent (new_config (lsm303dlx_a_set_irq m pdata c ap i))"
    by (rule set_irq_consistent)
qed

text \<open>
  With a \<^verbatim>\<open>long\<close> of at least 64 bits the product does not wrap:
  \<^verbatim>\<open>lsm303dlx_a_set_dur\<close> keeps the invariant for every request from 0 to
  \<open>2 ^ 32 - 1\<close> (at a rate below \<open>2 ^ 31\<close>, as every rate of the driver is), and
  \<^verbatim>\<open>lsm303dlx_a_set_odr\<close> keeps it for every request.
\<close>

lemma setters_keep_consistent_wide:
  fixes d q :: "'l::len word"
  assumes L: "64 \<le> LENGTH('l)" and c: "consistent c"
  shows "(uint d < 2 ^ 32 \<longrightarrow> uint (odr c) < 2 ^ 31 \<longrightarrow>
            consistent (new_config (lsm303dlx_a_set_dur m pdata c ap d))) \<and>
         consistent (new_config (lsm303dlx_a_set_odr m pdata c ap q))"
  using set_dur_consistent_wide [OF L c] set_odr_consistent_wide [OF L c] by blast

text \<open>
  The wrap-around at \<^verbatim>\<open>lsm303dlx_a_set_odr\<close> alone, for both widths: with a stored
  duration of 10738 ms, selecting 400 Hz gives \<open>reg_dur = 0\<close> with a 32-bit
  \<^verbatim>\<open>long\<close> and \<open>0x7F\<close> with a 64-bit one.
\<close>

lemma set_odr_product_wraps:
  "new_config (lsm303dlx_a_set_odr quiet_bus default_pdata (suspend_defaults\<lparr>dur := 10738\<rparr>)
      False (200000 :: 32 word))
     = suspend_defaults\<lparr>dur := 10738, odr := 400000, ctrl_reg1 := 0x37, reg_dur := 0\<rparr>"
  "new_config (lsm303dlx_a_set_odr quiet_bus default_pdata (suspend_defaults\<lparr>dur := 10738\<rparr>)
      False (200000 :: 64 word))
     = suspend_defaults\<lparr>dur := 10738, odr := 400000, ctrl_reg1 := 0x37, reg_dur := 0x7F\<rparr>"
  by (simp_all add: setter_eval new_config_def suspend_defaults_def)

text \<open>
  Requests outside the unsigned 32-bit fields are not kept as they are, whatever the
  width of \<^verbatim>\<open>long\<close>. A duration request of \<open>- 33554432\<close> is stored as
  \<open>4261412864\<close>, for which the encoding would be \<open>0x7F\<close>; the code stores
  \<open>reg_dur = 0\<close> with a 32-bit \<^verbatim>\<open>long\<close> and \<open>reg_dur = 52\<close> with a 64-bit one.
\<close>

lemma set_dur_breaks_consistency:
  "lsm303dlx_a_init 1 True (2048 :: 32 word) quiet_bus lsm303dlx_a_descr blank_pdata =
     Some (INV_SUCCESS,
       blank_pdata\<lparr>private_data := \<lparr>suspend = suspend_defaults, resume = resume_defaults\<rparr>\<rparr>,
       quiet_bus) \<and>
   new_config (lsm303dlx_a_set_dur quiet_bus blank_pdata resume_defaults False (- 33554432 :: 32 word))
     = resume_defaults\<lparr>dur := 4261412864, reg_dur := 0\<rparr> \<and>
   \<not> consistent (new_config
     (lsm303dlx_a_set_dur quiet_bus blank_pdata resume_defaults False (- 33554432 :: 32 word))) \<and>
   lsm303dlx_a_init 1 True (2048 :: 64 word) quiet_bus lsm303dlx_a_descr blank_pdata =
     Some (INV_SUCCESS,
       blank_pdata\<lparr>private_data := \<lparr>suspend = suspend_defaults, resume = resume_defaults\<rparr>\<rparr>,
       quiet_bus) \<and>
   new_config (lsm303dlx_a_set_dur quiet_bus blank_pdata resume_defaults False (- 33554432 :: 64 word))
     = resume_defaults\<lparr>dur := 4261412864, reg_dur := 52\<rparr> \<and>
   \<not> consistent (new_config
     (lsm303dlx_a_set_dur quiet_bus blank_pdata resume_defaults False (- 33554432 :: 64 word)))"
proof -
  have a: "new_config (lsm303dlx_a_set_dur quiet_bus blank_pdata resume_defaults False (- 33554432 :: 32 word))
     = resume_defaults\<lparr>dur := 4261412864, reg_dur := 0\<rparr>"
    by (simp add: setter_eval new_config_def resume_defaults_def)
  have b: "new_config (lsm303dlx_a_set_dur quiet_bus blank_pdata resume_defaults False (- 33554432 :: 64 word))
     = resume_defaults\<lparr>dur := 4261412864, reg_dur := 52\<rparr>"
    by (simp add: setter_eval new_config_def resume_defaults_def)
  have c: "\<not> consistent (resume_defaults\<lparr>dur := 4261412864, reg_dur := 0\<rparr>)"
    "\<not> consistent (resume_defaults\<lparr>dur := 4261412864, reg_dur := 52\<rparr>)"
    by (simp_all add: consistent_def resume_defaults_def)
  show ?thesis unfolding a b using c init_defaults [of 1] by simp
qed

text \<open>
  With a 64-bit \<^verbatim>\<open>long\<close>, a threshold request of \<open>2 ^ 56 + 1\<close> passes the
  unsigned comparison (its low 32 bits are 1), \<^verbatim>\<open>ths * 128L\<close> wraps to a negative
  value and the truncating division rounds the other way: \<open>ths = 1\<close> is stored with
  \<open>reg_ths = 1\<close>, not 0.
\<close>

lemma set_ths_product_wraps:
  "lsm303dlx_a_set_ths quiet_bus default_pdata resume_defaults False (2 ^ 56 + 1 :: 64 word) =
     Some (INV_SUCCESS, resume_defaults\<lparr>ths := 1, reg_ths := 1\<rparr>, quiet_bus)"
  "(1 :: int) * 128 div 2048 = 0"
  by (simp_all add: setter_eval resume_defaults_def unsigned_ucast_eq)

section \<open>C2: resume stops at the first failure\<close>

text \<open>
  C2. \<^verbatim>\<open>lsm303dlx_a_resume\<close> is fail-fast, for every configuration and every
  transport: when the bus operations before the \<open>k\<close>-th succeed and the \<open>k\<close>-th
  answers a non-zero status (or is the last one), the function returns that status and
  has issued exactly the first \<open>k + 1\<close> operations of its sequence, none after. In
  particular, when the write of \<^verbatim>\<open>CTRL_REG1\<close> succeeds and the write of the
  full-scale register \<^verbatim>\<open>CTRL_REG4\<close> fails, the function returns that error and has
  issued these two writes only: no threshold, duration or interrupt write. (In the
  source the full-scale write is the second operation of the eight.)
\<close>

theorem resume_fail_fast:
  "(k < 8 \<longrightarrow> (\<forall>i<k. step_status m (resume_ops p) i = 0) \<longrightarrow>
      (step_status m (resume_ops p) k \<noteq> 0 \<or> k = 7) \<longrightarrow>
      lsm303dlx_a_resume m slave p =
        (step_status m (resume_ops p) k, m\<lparr>issued := issued m @ take (Suc k) (resume_ops p)\<rparr>)) \<and>
   (step_status m (resume_ops p) 0 = 0 \<longrightarrow> step_status m (resume_ops p) 1 \<noteq> 0 \<longrightarrow>
      lsm303dlx_a_resume m slave p =
        (step_status m (resume_ops p) 1,
         m\<lparr>issued := issued m @
           [Single_Write (address p) LSM303DLx_CTRL_REG1 (ctrl_reg1 (resume (private_data p))),
            Single_Write (address p) LSM303DLx_CTRL_REG4
              (full_scale_byte (resume (private_data p)))]\<rparr>)) \<and>
   length (resume_ops p) = 8"
proof (intro conjI impI)
  assume k: "k < 8" and ok: "\<forall>i<k. step_status m (resume_ops p) i = 0"
    and stop: "step_status m (resume_ops p) k \<noteq> 0 \<or> k = 7"
  from k consider "k = 0" | "k = 1" | "k = 2" | "k = 3" | "k = 4" | "k = 5" | "k = 6" | "k = 7"
    by linarith
  then show "lsm303dlx_a_resume m slave p =
        (step_status m (resume_ops p) k, m\<lparr>issued := issued m @ take (Suc k) (resume_ops p)\<rparr>)"
  proof cases
    case 1
    with stop show ?thesis by (simp add: resume_unfold Let_def eval_nat_numeral)
  next
    case 2
    with ok stop show ?thesis by (simp add: resume_unfold Let_def eval_nat_numeral)
  next
    case 3
    with ok have "\<forall>i\<in>{0, 1}. step_status m (resume_ops p) i = 0" by simp
    with 3 stop show ?thesis by (simp add: resume_unfold Let_def eval_nat_numeral)
  next
    case 4
    with ok have "\<forall>i\<in>{0, 1, 2}. step_status m (resume_ops p) i = 0" by simp
    with 4 stop show ?thesis by (simp add: resume_unfold Let_def eval_nat_numeral)
  next
    case 5
    with ok have "\<forall>i\<in>{0, 1, 2, 3}. step_status m (resume_ops p) i = 0" by simp
    with 5 stop show ?thesis by (simp add: resume_unfold Let_def eval_nat_numeral)
  next
    case 6
    with ok have "\<forall>i\<in>{0, 1, 2, 3, 4}. step_status m (resume_ops p) i = 0" by simp
    with 6 stop show ?thesis by (simp add: resume_unfold Let_def eval_nat_numeral)
  next
    case 7
    with ok have "\<forall>i\<in>{0, 1, 2, 3, 4, 5}. step_status m (resume_ops p) i = 0" by simp
    with 7 stop show ?thesis by (simp add: resume_unfold Let_def eval_nat_numeral)
  next
    case 8
    with ok have "\<forall>i\<in>{0, 1, 2, 3, 4, 5, 6}. step_status m (resume_ops p) i = 0" by simp
    with 8 show ?thesis by (simp add: resume_unfold Let_def resume_ops_nth(1) eval_nat_numeral)
  qed
next
  assume "step_status m (resume_ops p) 0 = 0" "step_status m (resume_ops p) 1 \<noteq> 0"
  then show "lsm303dlx_a_resume m slave p =
        (step_status m (resume_ops p) 1,
         m\<lparr>issued := issued m @
           [Single_Write (address p) LSM303DLx_CTRL_REG1 (ctrl_reg1 (resume (private_data p))),
            Single_Write (address p) LSM303DLx_CTRL_REG4
              (full_scale_byte (resume (private_data p)))]\<rparr>)"
    by (simp add: resume_unfold Let_def resume_ops_nth(3))
next
  show "length (resume_ops p) = 8" by (rule resume_ops_nth(1))
qed

text \<open>
  The theorem for C2 on a bus whose second operation fails with status 5: the resume of
  the default configuration returns 5 after the writes of \<^verbatim>\<open>CTRL_REG1\<close> and
  \<^verbatim>\<open>CTRL_REG4\<close>.
\<close>

theorem resume_fail_fast_witness:
  "step_status (failing_bus 1 5) (resume_ops default_pdata) 0 = 0 \<and>
   step_status (failing_bus 1 5) (resume_ops default_pdata) 1 = 5 \<and>
   lsm303dlx_a_resume (failing_bus 1 5) lsm303dlx_a_descr default_pdata =
     (5, failing_bus 1 5\<lparr>issued :=
           [Single_Write 0x19 LSM303DLx_CTRL_REG1 0x37,
            Single_Write 0x19 LSM303DLx_CTRL_REG4 0x40]\<rparr>)"
  using resume_fail_fast [of 1 "failing_bus 1 5" default_pdata lsm303dlx_a_descr]
  by (simp add: step_status_def failing_bus_def resume_ops_def default_pdata_def blank_pdata_def
      resume_defaults_def full_scale_byte_def Let_def)

section \<open>C3: suspend attempts every operation\<close>

text \<open>
  C3. \<^verbatim>\<open>lsm303dlx_a_suspend\<close> is best-effort: for every configuration and every
  transport, whatever the statuses of the earlier operations, it issues all eight bus
  operations of its sequence (seven writes, then the read of
  \<^verbatim>\<open>HP_FILTER_RESET\<close>), and the value it returns is the status of that final read
  alone.
\<close>

theorem suspend_best_effort:
  "lsm303dlx_a_suspend m slave p =
     (step_status m (suspend_ops p) 7, m\<lparr>issued := issued m @ suspend_ops p\<rparr>) \<and>
   length (suspend_ops p) = 8 \<and>
   suspend_ops p ! 7 = Serial_Read (address p) LSM303DLx_HP_FILTER_RESET 1"
  by (simp add: lsm303dlx_a_suspend_def suspend_ops_def bus_defs)

text \<open>
  The theorem for C3 on a bus whose first operation fails with status 5: the suspend of
  the default configuration still issues all eight operations and returns 0, the status
  of the final read.
\<close>

theorem suspend_best_effort_witness:
  "step_status (failing_bus 0 5) (suspend_ops default_pdata) 0 = 5 \<and>
   lsm303dlx_a_suspend (failing_bus 0 5) lsm303dlx_a_descr default_pdata =
     (0, failing_bus 0 5\<lparr>issued :=
        [Single_Write 0x19 LSM303DLx_CTRL_REG1 0x07,
         Single_Write 0x19 LSM303DLx_CTRL_REG2 0x0f,
         Single_Write 0x19 LSM303DLx_CTRL_REG4 0x40,
         Single_Write 0x19 LSM303DLx_INT1_THS 5,
         Single_Write 0x19 LSM303DLx_INT1_DURATION 0,
         Single_Write 0x19 LSM303DLx_CTRL_REG3 0,
         Single_Write 0x19 LSM303DLx_INT1_CFG 0,
         Serial_Read 0x19 LSM303DLx_HP_FILTER_RESET 1]\<rparr>)"
  using suspend_best_effort [of "failing_bus 0 5" lsm303dlx_a_descr default_pdata]
  by (simp add: step_status_def failing_bus_def suspend_ops_def default_pdata_def blank_pdata_def
      suspend_defaults_def full_scale_byte_def irq_bytes_def Let_def
      MPU_SLAVE_IRQ_TYPE_DATA_READY_def MPU_SLAVE_IRQ_TYPE_MOTION_def)

section \<open>C4: the threshold setter\<close>

text \<open>
  C4 says that \<^verbatim>\<open>lsm303dlx_a_set_ths\<close> floors a negative request to 0. The source
  has the test \<^verbatim>\<open>if (ths < 0) ths = 0;\<close>, but the line before it compares
  \<^verbatim>\<open>(unsigned int) ths\<close> with the range, and the request \<open>- 1\<close> read as unsigned
  is \<open>4294967295\<close>, above every range: with \<open>fsr = 4096\<close> it is stored as
  \<open>ths = 4095\<close>, \<open>reg_ths = 127\<close>, for a 32-bit and for a 64-bit \<^verbatim>\<open>long\<close>.
  The request 5000 is stored as 4095 with \<open>reg_ths = 127\<close>, as C4 says.
\<close>

theorem set_ths_negative_request:
  "lsm303dlx_a_set_ths quiet_bus default_pdata (resume_defaults\<lparr>fsr := 4096\<rparr>) False (- 1 :: 32 word) =
     Some (INV_SUCCESS, resume_defaults\<lparr>fsr := 4096, ths := 4095, reg_ths := 127\<rparr>, quiet_bus) \<and>
   lsm303dlx_a_set_ths quiet_bus default_pdata (resume_defaults\<lparr>fsr := 4096\<rparr>) False (- 1 :: 64 word) =
     Some (INV_SUCCESS, resume_defaults\<lparr>fsr := 4096, ths := 4095, reg_ths := 127\<rparr>, quiet_bus) \<and>
   lsm303dlx_a_set_ths quiet_bus default_pdata (resume_defaults\<lparr>fsr := 4096\<rparr>) False (5000 :: 32 word) =
     Some (INV_SUCCESS, resume_defaults\<lparr>fsr := 4096, ths := 4095, reg_ths := 127\<rparr>, quiet_bus) \<and>
   lsm303dlx_a_set_ths quiet_bus default_pdata (resume_defaults\<lparr>fsr := 4096\<rparr>) False (5000 :: 64 word) =
     Some (INV_SUCCESS, resume_defaults\<lparr>fsr := 4096, ths := 4095, reg_ths := 127\<rparr>, quiet_bus)"
  by (simp add: setter_eval resume_defaults_def unsigned_minus_1_eq_mask mask_eq_exp_minus_1
      unsigned_ucast_eq)

section \<open>C5: the two encodings of the full-scale range\<close>

text \<open>
  C5 says that the byte \<^verbatim>\<open>lsm303dlx_a_set_fsr\<close> writes to \<^verbatim>\<open>CTRL_REG4\<close> and the
  byte \<^verbatim>\<open>lsm303dlx_a_suspend\<close> and \<^verbatim>\<open>lsm303dlx_a_resume\<close> write for the same
  stored range agree. They do not: \<^verbatim>\<open>lsm303dlx_a_set_fsr\<close> writes \<open>0x70\<close> for
  4096 and \<open>0x50\<close> for 8192, suspend and resume write \<open>0x50\<close> for 4096 and
  \<open>0x70\<close> for 8192. The byte \<^verbatim>\<open>lsm303dlx_a_set_fsr\<close> writes does not depend on the
  width of \<^verbatim>\<open>long\<close>.
\<close>

theorem full_scale_bytes_disagree:
  "lsm303dlx_a_set_fsr quiet_bus default_pdata resume_defaults True (4096 :: 32 word) =
     Some (0, resume_defaults\<lparr>fsr := 4096, reg_ths := 1\<rparr>,
           quiet_bus\<lparr>issued := [Single_Write 0x19 LSM303DLx_INT1_THS 1,
                                Single_Write 0x19 LSM303DLx_CTRL_REG4 0x70]\<rparr>) \<and>
   issued (snd (lsm303dlx_a_resume quiet_bus lsm303dlx_a_descr
     (default_pdata\<lparr>private_data := \<lparr>suspend = resume_defaults\<lparr>fsr := 4096, reg_ths := 1\<rparr>,
                                       resume = resume_defaults\<lparr>fsr := 4096, reg_ths := 1\<rparr>\<rparr>\<rparr>))) ! 1
     = Single_Write 0x19 LSM303DLx_CTRL_REG4 0x50 \<and>
   issued (snd (lsm303dlx_a_suspend quiet_bus lsm303dlx_a_descr
     (default_pdata\<lparr>private_data := \<lparr>suspend = resume_defaults\<lparr>fsr := 4096, reg_ths := 1\<rparr>,
                                       resume = resume_defaults\<lparr>fsr := 4096, reg_ths := 1\<rparr>\<rparr>\<rparr>))) ! 2
     = Single_Write 0x19 LSM303DLx_CTRL_REG4 0x50 \<and>
   lsm303dlx_a_set_fsr quiet_bus default_pdata resume_defaults True (8192 :: 32 word) =
     Some (0, resume_defaults\<lparr>fsr := 8192, reg_ths := 0\<rparr>,
           quiet_bus\<lparr>issued := [Single_Write 0x19 LSM303DLx_INT1_THS 0,
                                Single_Write 0x19 LSM303DLx_CTRL_REG4 0x50]\<rparr>) \<and>
   issued (snd (lsm303dlx_a_resume quiet_bus lsm303dlx_a_descr
     (default_pdata\<lparr>private_data := \<lparr>suspend = resume_defaults\<lparr>fsr := 8192, reg_ths := 0\<rparr>,
                                       resume = resume_defaults\<lparr>fsr := 8192, reg_ths := 0\<rparr>\<rparr>\<rparr>))) ! 1
     = Single_Write 0x19 LSM303DLx_CTRL_REG4 0x70 \<and>
   lsm303dlx_a_set_fsr quiet_bus default_pdata resume_defaults True (4096 :: 64 word) =
     Some (0, resume_defaults\<lparr>fsr := 4096, reg_ths := 1\<rparr>,
           quiet_bus\<lparr>issued := [Single_Write 0x19 LSM303DLx_INT1_THS 1,
                                Single_Write 0x19 LSM303DLx_CTRL_REG4 0x70]\<rparr>)"
proof -
  have a': "lsm303dlx_a_set_fsr quiet_bus default_pdata resume_defaults True (4096 :: 64 word) =
     Some (0, resume_defaults\<lparr>fsr := 4096, reg_ths := 1\<rparr>,
           quiet_bus\<lparr>issued := [Single_Write 0x19 LSM303DLx_INT1_THS 1,
                                Single_Write 0x19 LSM303DLx_CTRL_REG4 0x70]\<rparr>)"
    by (simp add: lsm303dlx_a_set_fsr_def set_ths_apply setter_eval resume_defaults_def
        inv_serial_single_write_def quiet_bus_def default_pdata_def blank_pdata_def Let_def)
  have a: "lsm303dlx_a_set_fsr quiet_bus default_pdata resume_defaults True (4096 :: 32 word) =
     Some (0, resume_defaults\<lparr>fsr := 4096, reg_ths := 1\<rparr>,
           quiet_bus\<lparr>issued := [Single_Write 0x19 LSM303DLx_INT1_THS 1,
                                Single_Write 0x19 LSM303DLx_CTRL_REG4 0x70]\<rparr>)"
    by (simp add: lsm303dlx_a_set_fsr_def set_ths_apply setter_eval resume_defaults_def
        inv_serial_single_write_def quiet_bus_def default_pdata_def blank_pdata_def Let_def)
  have b: "lsm303dlx_a_set_fsr quiet_bus default_pdata resume_defaults True (8192 :: 32 word) =
     Some (0, resume_defaults\<lparr>fsr := 8192, reg_ths := 0\<rparr>,
           quiet_bus\<lparr>issued := [Single_Write 0x19 LSM303DLx_INT1_THS 0,
                                Single_Write 0x19 LSM303DLx_CTRL_REG4 0x50]\<rparr>)"
    by (simp add: lsm303dlx_a_set_fsr_def set_ths_apply setter_eval resume_defaults_def
        inv_serial_single_write_def quiet_bus_def default_pdata_def blank_pdata_def Let_def)
  have c: "issued (snd (lsm303dlx_a_resume quiet_bus lsm303dlx_a_descr
     (default_pdata\<lparr>private_data := \<lparr>suspend = resume_defaults\<lparr>fsr := 4096, reg_ths := 1\<rparr>,
                                       resume = resume_defaults\<lparr>fsr := 4096, reg_ths := 1\<rparr>\<rparr>\<rparr>))) ! 1
     = Single_Write 0x19 LSM303DLx_CTRL_REG4 0x50"
    "issued (snd (lsm303dlx_a_resume quiet_bus lsm303dlx_a_descr
     (default_pdata\<lparr>private_data := \<lparr>suspend = resume_defaults\<lparr>fsr := 8192, reg_ths := 0\<rparr>,
                                       resume = resume_defaults\<lparr>fsr := 8192, reg_ths := 0\<rparr>\<rparr>\<rparr>))) ! 1
     = Single_Write 0x19 LSM303DLx_CTRL_REG4 0x70"
    by (simp_all add: resume_unfold step_status_def resume_ops_def quiet_bus_def default_pdata_def
        blank_pdata_def full_scale_byte_def resume_defaults_def Let_def)
  have d: "issued (snd (lsm303dlx_a_suspend quiet_bus lsm303dlx_a_descr
     (default_pdata\<lparr>private_data := \<lparr>suspend = resume_defaults\<lparr>fsr := 4096, reg_ths := 1\<rparr>,
                                       resume = resume_defaults\<lparr>fsr := 4096, reg_ths := 1\<rparr>\<rparr>\<rparr>))) ! 2
     = Single_Write 0x19 LSM303DLx_CTRL_REG4 0x50"
    by (simp add: suspend_unfold step_status_def suspend_ops_def quiet_bus_def default_pdata_def
        blank_pdata_def full_scale_byte_def resume_defaults_def Let_def)
  show ?thesis using a a' b c d by simp
qed

section \<open>C6: the rate setter selects from a fixed set, monotonically\<close>

text \<open>
  C6, as amended. For every requested rate, the rate \<^verbatim>\<open>lsm303dlx_a_set_odr\<close> stores
  is one of 0, 500, 1000, 2000, 5000, 10000, 50000, 100000, 400000, 1000000; a larger
  request never stores a smaller rate; a request of 99999 stores 100000 and a request
  of 100001 stores 400000.
\<close>

theorem set_odr_rates_monotone:
  fixes x y :: "'l::len word"
  assumes L: "32 \<le> LENGTH('l)"
  shows
   "odr (new_config (lsm303dlx_a_set_odr m p c ap x)) \<in> set odr_rates \<and>
    (sint x \<le> sint y \<longrightarrow>
       odr (new_config (lsm303dlx_a_set_odr m p c ap x))
         \<le> odr (new_config (lsm303dlx_a_set_odr m' p' c' ap' y))) \<and>
    odr (new_config (lsm303dlx_a_set_odr m p c ap (99999 :: 'l word))) = 100000 \<and>
    odr (new_config (lsm303dlx_a_set_odr m p c ap (100001 :: 'l word))) = 400000"
proof -
  have s: "sint (99999 :: 'l word) = 99999" "sint (100001 :: 'l word) = 100001"
    using L by (simp_all add: signed_take_bit_long)
  have a: "fst (odr_tier x) \<in> set odr_rates"
    unfolding odr_tier_fst [OF L] by (simp add: odr_rates_def)
  have b: "sint x \<le> sint y \<longrightarrow> fst (odr_tier x) \<le> fst (odr_tier y)"
    unfolding odr_tier_fst [OF L] by simp
  have c: "fst (odr_tier (99999 :: 'l word)) = 100000" "fst (odr_tier (100001 :: 'l word)) = 400000"
    unfolding odr_tier_fst [OF L] s by simp_all
  show ?thesis
    unfolding odr_new_config_set_odr [OF L] using a b c by simp
qed

text \<open>The theorem for C6 at the requests 99999 and 100001, with a 32-bit \<^verbatim>\<open>long\<close>.\<close>

theorem set_odr_rates_monotone_witness:
  "sint (99999 :: 32 word) \<le> sint (100001 :: 32 word) \<and>
   odr (new_config (lsm303dlx_a_set_odr quiet_bus blank_pdata suspend_defaults False (99999 :: 32 word)))
     \<le> odr (new_config (lsm303dlx_a_set_odr quiet_bus blank_pdata resume_defaults True (100001 :: 32 word))) \<and>
   odr (new_config (lsm303dlx_a_set_odr quiet_bus blank_pdata suspend_defaults False (99999 :: 32 word)))
     = 100000"
  using set_odr_rates_monotone [where 'l = 32, of quiet_bus blank_pdata suspend_defaults False 99999
      100001 quiet_bus blank_pdata resume_defaults True]
  by (simp add: odr_new_config_set_odr odr_tier_def word_sless_alt)

text \<open>
  C6 as stated fails: a request of 99999 exceeds 50000 and stores 100000, not 50000.
\<close>

theorem set_odr_99999:
  "odr (new_config (lsm303dlx_a_set_odr quiet_bus blank_pdata suspend_defaults False (99999 :: 32 word)))
     = 100000 \<and>
   odr (new_config (lsm303dlx_a_set_odr quiet_bus blank_pdata suspend_defaults False (99999 :: 64 word)))
     = 100000 \<and>
   (100000 :: u32) \<noteq> 50000"
  by (simp add: odr_new_config_set_odr odr_tier_def word_sless_alt)

section \<open>C7: the duration setter\<close>

text \<open>
  C7 says that \<^verbatim>\<open>lsm303dlx_a_set_dur\<close> stores
  \<open>reg_dur = min (dur * odr div 1000000) 0x7F\<close> and the requested duration itself in
  \<^verbatim>\<open>dur\<close>. The source computes \<^verbatim>\<open>(dur * config->odr) / 1000000L\<close> and clamps the
  quotient to \<^verbatim>\<open>LSM303DLx_MAX_DUR\<close>, but with a 32-bit \<^verbatim>\<open>long\<close> the product has
  already wrapped around modulo \<open>2 ^ 32\<close>. At the resume rate after initialisation,
  \<open>odr = 400000\<close>, a request of 10738 ms stores \<open>dur = 10738\<close> and
  \<open>reg_dur = 0\<close>: \<open>10738 * 400000 = 4295200000\<close> is \<open>232704\<close> modulo
  \<open>2 ^ 32\<close>, and \<open>232704 div 1000000 = 0\<close>, where C7 gives
  \<open>min 4295 0x7F = 0x7F\<close>. With a 64-bit \<^verbatim>\<open>long\<close> the same request stores
  \<open>0x7F\<close>.
\<close>

theorem set_dur_product_wraps:
  "odr resume_defaults = 400000 \<and>
   new_config (lsm303dlx_a_set_dur quiet_bus blank_pdata resume_defaults False (10738 :: 32 word))
     = resume_defaults\<lparr>dur := 10738, reg_dur := 0\<rparr> \<and>
   min ((10738 :: int) * 400000 div 1000000) 0x7F = 0x7F \<and>
   (10738 :: int) * 400000 mod 2 ^ 32 div 1000000 = 0 \<and>
   new_config (lsm303dlx_a_set_dur quiet_bus blank_pdata resume_defaults False (10738 :: 64 word))
     = resume_defaults\<lparr>dur := 10738, reg_dur := 0x7F\<rparr>"
  using set_dur_10738 by (simp add: resume_defaults_def)

text \<open>
  Where the code does what C7 says, for every \<^verbatim>\<open>long\<close> of at least 32 bits: for a
  request \<open>d\<close> from 0 to \<open>2 ^ 32 - 1\<close> whose product with the rate is below
  \<open>2 ^ 32\<close>, \<^verbatim>\<open>dur\<close> is \<open>d\<close> itself, \<^verbatim>\<open>reg_dur\<close> is
  \<open>min (d * odr div 1000000) 0x7F\<close> and no other field changes.
\<close>

lemma set_dur_encoding:
  fixes d :: "'l::len word"
  assumes L: "32 \<le> LENGTH('l)" and d0: "0 \<le> sint d" and d1: "sint d < 2 ^ 32"
    and p: "sint d * uint (odr c) < 2 ^ 32"
  shows "uint (dur (new_config (lsm303dlx_a_set_dur m pd c ap d))) = sint d \<and>
         uint (reg_dur (new_config (lsm303dlx_a_set_dur m pd c ap d))) =
           min (sint d * uint (odr c) div 1000000) 0x7F \<and>
         new_config (lsm303dlx_a_set_dur m pd c ap d) =
           c\<lparr>dur := dur (new_config (lsm303dlx_a_set_dur m pd c ap d)),
             reg_dur := reg_dur (new_config (lsm303dlx_a_set_dur m pd c ap d))\<rparr>"
proof -
  have u: "uint d = sint d" using d0 by (rule uint_of_sint)
  have "uint (ucast d :: u32) = sint d"
    unfolding uint_ucast_long_u32 u using d0 d1 by simp
  moreover have "uint d * uint (odr c) < 2 ^ 32" unfolding u by (rule p)
  from reg_dur_value [OF L this]
  have "uint (reg_dur (new_config (lsm303dlx_a_set_dur m pd c ap d))) =
           min (sint d * uint (odr c) div 1000000) 0x7F"
    by (simp add: new_config_set_dur u)
  ultimately show ?thesis by (simp add: new_config_set_dur)
qed

text \<open>
  With a \<^verbatim>\<open>long\<close> of at least 64 bits the same holds for every request from 0 to
  \<open>2 ^ 32 - 1\<close>, with no bound on the product (at a rate below \<open>2 ^ 31\<close>).
\<close>

lemma set_dur_encoding_wide:
  fixes d :: "'l::len word"
  assumes L: "64 \<le> LENGTH('l)" and d0: "0 \<le> sint d" and d1: "sint d < 2 ^ 32"
    and w: "uint (odr c) < 2 ^ 31"
  shows "uint (dur (new_config (lsm303dlx_a_set_dur m pd c ap d))) = sint d \<and>
         uint (reg_dur (new_config (lsm303dlx_a_set_dur m pd c ap d))) =
           min (sint d * uint (odr c) div 1000000) 0x7F \<and>
         new_config (lsm303dlx_a_set_dur m pd c ap d) =
           c\<lparr>dur := dur (new_config (lsm303dlx_a_set_dur m pd c ap d)),
             reg_dur := reg_dur (new_config (lsm303dlx_a_set_dur m pd c ap d))\<rparr>"
proof -
  have u: "uint d = sint d" using d0 by (rule uint_of_sint)
  have "uint (ucast d :: u32) = sint d"
    unfolding uint_ucast_long_u32 u using d0 d1 by simp
  moreover have "uint d < 2 ^ 32" unfolding u by (rule d1)
  from reg_dur_value_wide [OF L this w]
  have "uint (reg_dur (new_config (lsm303dlx_a_set_dur m pd c ap d))) =
           min (sint d * uint (odr c) div 1000000) 0x7F"
    by (simp add: new_config_set_dur u)
  ultimately show ?thesis by (simp add: new_config_set_dur)
qed

text \<open>
  The field \<^verbatim>\<open>dur\<close> is an \<^verbatim>\<open>unsigned int\<close>: a negative request is not stored as
  it is. The request \<open>- 1\<close> is stored as \<open>4294967295\<close>, whatever the width of
  \<^verbatim>\<open>long\<close>.
\<close>

lemma set_dur_negative_request:
  "uint (dur (new_config (lsm303dlx_a_set_dur quiet_bus blank_pdata kzalloc_config False (- 1 :: 32 word))))
     = 4294967295 \<and> sint (- 1 :: 32 word) = - 1 \<and>
   uint (dur (new_config (lsm303dlx_a_set_dur quiet_bus blank_pdata kzalloc_config False (- 1 :: 64 word))))
     = 4294967295 \<and> sint (- 1 :: 64 word) = - 1"
  by (simp add: new_config_set_dur uint_ucast_long_u32 unsigned_minus_1_eq_mask mask_eq_exp_minus_1)

section \<open>C8: the range setter\<close>

text \<open>
  C8. For every requested range, \<^verbatim>\<open>lsm303dlx_a_set_fsr\<close> returns, and the range it
  stores is 2048, 4096 or 8192; it is at least the request whenever the request is at
  most 8192, and it is 8192 for every larger request. A request of 6000 stores 8192, and
  when applied the last bus operation is the write of \<open>0x40 OR 0x10 = 0x50\<close> to
  \<^verbatim>\<open>CTRL_REG4\<close> (after the write of the threshold register by
  \<^verbatim>\<open>lsm303dlx_a_set_ths\<close>).
\<close>

theorem set_fsr_tiers:
  fixes x :: "'l::len word"
  assumes L: "32 \<le> LENGTH('l)"
  shows
   "(\<exists>r c' m'. lsm303dlx_a_set_fsr m p c ap x = Some (r, c', m') \<and>
       (fsr c' = 2048 \<or> fsr c' = 4096 \<or> fsr c' = 8192) \<and>
       (sint x \<le> 8192 \<longrightarrow> sint x \<le> uint (fsr c')) \<and>
       (8192 < sint x \<longrightarrow> fsr c' = 8192)) \<and>
    (\<exists>r c' m'. lsm303dlx_a_set_fsr m p c True (6000 :: 'l word) = Some (r, c', m') \<and>
       fsr c' = 8192 \<and>
       issued m' = issued m @
         [Single_Write (address p) LSM303DLx_INT1_THS (reg_ths c'),
          Single_Write (address p) LSM303DLx_CTRL_REG4 0x50]) \<and>
    (0x40 :: u8) OR 0x10 = 0x50"
proof (intro conjI)
  from set_fsr_Some [of m p c ap x] obtain r c' m' where
    e: "lsm303dlx_a_set_fsr m p c ap x = Some (r, c', m')" and f: "fsr c' = fst (fsr_tier x)"
    by auto
  have "(fsr c' = 2048 \<or> fsr c' = 4096 \<or> fsr c' = 8192) \<and>
       (sint x \<le> 8192 \<longrightarrow> sint x \<le> uint (fsr c')) \<and>
       (8192 < sint x \<longrightarrow> fsr c' = 8192)"
    unfolding f fsr_tier_eq [OF L] by simp
  with e show "\<exists>r c' m'. lsm303dlx_a_set_fsr m p c ap x = Some (r, c', m') \<and>
       (fsr c' = 2048 \<or> fsr c' = 4096 \<or> fsr c' = 8192) \<and>
       (sint x \<le> 8192 \<longrightarrow> sint x \<le> uint (fsr c')) \<and>
       (8192 < sint x \<longrightarrow> fsr c' = 8192)"
    by blast
next
  have t: "fsr_tier (6000 :: 'l word) = (8192, 0x50)"
    using L by (simp add: fsr_tier_eq signed_take_bit_long)
  from set_fsr_apply [of m p c "6000 :: 'l word"]
  show "\<exists>r c' m'. lsm303dlx_a_set_fsr m p c True (6000 :: 'l word) = Some (r, c', m') \<and>
       fsr c' = 8192 \<and>
       issued m' = issued m @
         [Single_Write (address p) LSM303DLx_INT1_THS (reg_ths c'),
          Single_Write (address p) LSM303DLx_CTRL_REG4 0x50]"
    unfolding t by auto
next
  show "(0x40 :: u8) OR 0x10 = 0x50" by simp
qed

text \<open>The theorem for C8 at the request 3000, with a 32-bit \<^verbatim>\<open>long\<close>.\<close>

theorem set_fsr_tiers_witness:
  "sint (3000 :: 32 word) \<le> 8192 \<and>
   (\<exists>r c' m'. lsm303dlx_a_set_fsr quiet_bus blank_pdata suspend_defaults True (3000 :: 32 word)
        = Some (r, c', m') \<and> sint (3000 :: 32 word) \<le> uint (fsr c'))"
  using set_fsr_tiers [where 'l = 32, of quiet_bus blank_pdata suspend_defaults True 3000]
  by auto

section \<open>C9: read looks at the status register first\<close>

text \<open>
  C9. \<^verbatim>\<open>lsm303dlx_a_read\<close> first reads one byte from the status register. When the
  low four bits of the status byte are not all zero it then issues the burst read of
  \<^verbatim>\<open>slave->read_len\<close> bytes from \<^verbatim>\<open>slave->read_reg\<close> (6 bytes from \<open>0xA8\<close> for
  this device) and returns its status; when they are all zero it issues no second read
  and returns \<^verbatim>\<open>INV_ERROR_ACCEL_DATA_NOT_READY\<close>, in particular for the status byte
  \<open>0x00\<close>. The status byte is the first byte the transport delivers for the status
  read.
\<close>

theorem read_checks_status_first:
  "(status_byte m p data AND 0x0F \<noteq> 0 \<longrightarrow>
      issued (snd (snd (lsm303dlx_a_read not_ready m slave p data))) =
        issued m @ [Serial_Read (address p) LSM303DLx_STATUS_REG 1,
                    Serial_Read (address p) (read_reg slave) (read_len slave)] \<and>
      fst (lsm303dlx_a_read not_ready m slave p data) =
        fst (transport m (issued m @ [Serial_Read (address p) LSM303DLx_STATUS_REG 1])
               (Serial_Read (address p) (read_reg slave) (read_len slave)))) \<and>
   (status_byte m p data AND 0x0F = 0 \<longrightarrow>
      issued (snd (snd (lsm303dlx_a_read not_ready m slave p data))) =
        issued m @ [Serial_Read (address p) LSM303DLx_STATUS_REG 1] \<and>
      fst (lsm303dlx_a_read not_ready m slave p data) = not_ready) \<and>
   (status_byte m p data = 0x00 \<longrightarrow>
      lsm303dlx_a_read not_ready m slave p data =
        (not_ready,
         fst (snd (inv_serial_read m (address p) LSM303DLx_STATUS_REG 1 data)),
         m\<lparr>issued := issued m @ [Serial_Read (address p) LSM303DLx_STATUS_REG 1]\<rparr>)) \<and>
   (\<forall>b bs e. transport m (issued m) (Serial_Read (address p) LSM303DLx_STATUS_REG 1) = (e, b # bs)
      \<longrightarrow> status_byte m p data = b) \<and>
   read_len lsm303dlx_a_descr = 6 \<and> read_reg lsm303dlx_a_descr = 0xA8"
  by (simp add: lsm303dlx_a_read_def status_byte_def inv_serial_read_def lsm303dlx_a_descr_def
      Let_def case_prod_beta)

text \<open>
  The theorem for C9 on a bus that delivers the status byte \<open>0x00\<close> (one read, data
  not ready) and on a bus that delivers \<open>0x08\<close> (status read, then burst read).
\<close>

theorem read_checks_status_first_witness:
  "status_byte (byte_bus 0x00) default_pdata (\<lambda>_. 0xFF) = 0x00 \<and>
   lsm303dlx_a_read 77 (byte_bus 0x00) lsm303dlx_a_descr default_pdata (\<lambda>_. 0xFF) =
     (77, (\<lambda>i. if i = 0 then 0x00 else 0xFF),
      byte_bus 0x00\<lparr>issued := [Serial_Read 0x19 LSM303DLx_STATUS_REG 1]\<rparr>) \<and>
   status_byte (byte_bus 0x08) default_pdata (\<lambda>_. 0xFF) AND 0x0F \<noteq> 0 \<and>
   issued (snd (snd (lsm303dlx_a_read 77 (byte_bus 0x08) lsm303dlx_a_descr default_pdata (\<lambda>_. 0xFF)))) =
     [Serial_Read 0x19 LSM303DLx_STATUS_REG 1, Serial_Read 0x19 0xA8 6]"
  using read_checks_status_first [of "byte_bus 0x00" default_pdata "\<lambda>_. 0xFF" 77 lsm303dlx_a_descr]
    read_checks_status_first [of "byte_bus 0x08" default_pdata "\<lambda>_. 0xFF" 77 lsm303dlx_a_descr]
  by (auto simp add: status_byte_def byte_bus_def inv_serial_read_def default_pdata_def
      blank_pdata_def lsm303dlx_a_descr_def Let_def fun_eq_iff)

section \<open>C10: what the rate setter changes\<close>

text \<open>
  C10. For every requested rate and every prior \<^verbatim>\<open>ctrl_reg1\<close>,
  \<^verbatim>\<open>lsm303dlx_a_set_odr\<close> leaves the low three bits of \<^verbatim>\<open>ctrl_reg1\<close> as they
  were, the new \<^verbatim>\<open>ctrl_reg1\<close> being the rate bits of the selected tier OR-ed with
  them, and changes no field other than \<^verbatim>\<open>odr\<close>, \<^verbatim>\<open>ctrl_reg1\<close> and
  \<^verbatim>\<open>reg_dur\<close>. A request of 200000 on a configuration with \<open>ctrl_reg1 = 0\<close>
  stores \<open>odr = 400000\<close> and \<open>ctrl_reg1 = 0x30\<close>, which is
  \<^verbatim>\<open>LSM303DLx_PWR_MODE_NORMAL | 0x10\<close>.
\<close>

theorem set_odr_frame:
  fixes x :: "'l::len word"
  assumes L: "32 \<le> LENGTH('l)"
  shows
   "ctrl_reg1 (new_config (lsm303dlx_a_set_odr m p c ap x)) AND 0x7 = ctrl_reg1 c AND 0x7 \<and>
    ctrl_reg1 (new_config (lsm303dlx_a_set_odr m p c ap x)) = snd (odr_tier x) OR (ctrl_reg1 c AND 0x7) \<and>
    new_config (lsm303dlx_a_set_odr m p c ap x) =
      c\<lparr>odr := odr (new_config (lsm303dlx_a_set_odr m p c ap x)),
        ctrl_reg1 := ctrl_reg1 (new_config (lsm303dlx_a_set_odr m p c ap x)),
        reg_dur := reg_dur (new_config (lsm303dlx_a_set_odr m p c ap x))\<rparr> \<and>
    odr (new_config (lsm303dlx_a_set_odr m p (c\<lparr>ctrl_reg1 := 0\<rparr>) ap (200000 :: 'l word))) = 400000 \<and>
    ctrl_reg1 (new_config (lsm303dlx_a_set_odr m p (c\<lparr>ctrl_reg1 := 0\<rparr>) ap (200000 :: 'l word))) = 0x30 \<and>
    LSM303DLx_PWR_MODE_NORMAL OR 0x10 = 0x30"
proof -
  have t: "odr_tier (200000 :: 'l word) = (400000, 0x30)"
    using L by (simp add: odr_tier_def word_sless_alt signed_take_bit_long LSM303DLx_PWR_MODE_NORMAL_def)
  show ?thesis
    by (simp add: new_config_set_odr [OF L] keep_low_bits odr_tier_snd_low_bits t
        LSM303DLx_PWR_MODE_NORMAL_def)
qed

text \<open>
  The theorem for C10 at the request 1500 on the default suspend configuration
  (\<open>ctrl_reg1 = 0x07\<close> becomes \<open>0x87\<close>), with a 32-bit \<^verbatim>\<open>long\<close>.
\<close>

theorem set_odr_frame_witness:
  "ctrl_reg1 (new_config (lsm303dlx_a_set_odr quiet_bus blank_pdata suspend_defaults False (1500 :: 32 word)))
     = 0x87 \<and>
   ctrl_reg1 (new_config (lsm303dlx_a_set_odr quiet_bus blank_pdata suspend_defaults False (1500 :: 32 word)))
     AND 0x7 = ctrl_reg1 suspend_defaults AND 0x7 \<and>
   ctrl_reg1 (new_config (lsm303dlx_a_set_odr quiet_bus blank_pdata
     (suspend_defaults\<lparr>ctrl_reg1 := 0\<rparr>) False (200000 :: 32 word))) = 0x30"
  using set_odr_frame [where 'l = 32, of quiet_bus blank_pdata suspend_defaults False 1500]
  by (simp add: odr_tier_def suspend_defaults_def word_sless_alt)

end
